theory Spec2Isabelle
  imports Main "HOL-Library.Sublist"
begin

section \<open>Data model (src/lib/api.ts)\<close>

text \<open>
  The interfaces \<^verbatim>\<open>Movie\<close>, \<^verbatim>\<open>Category\<close>, \<^verbatim>\<open>Pagination\<close> and \<^verbatim>\<open>APIResponse<T>\<close>.
  Of a movie and a category only the fields that the code reads are kept (the sitemap
  reads \<^verbatim>\<open>movie.slug\<close>, \<^verbatim>\<open>movie.thumbnail\<close>, \<^verbatim>\<open>movie.title\<close>, \<^verbatim>\<open>category.id\<close> and
  \<^verbatim>\<open>category.slug\<close>); an optional field (\<^verbatim>\<open>thumbnail?\<close>, \<^verbatim>\<open>data?\<close>, \<^verbatim>\<open>error?\<close>,
  \<^verbatim>\<open>pagination?\<close>) is an \<open>option\<close>, \<open>None\<close> standing for \<^verbatim>\<open>undefined\<close>.
  Strings are byte strings (the UTF-8 encoding of the JavaScript string); the
  characters the code looks at are all ASCII, and an ASCII byte never occurs inside
  the encoding of another character.
  Field names carry the name of their interface where the plain name is needed for a
  parameter of the code or is taken in HOL: \<open>movie_slug\<close>, \<open>cat_id\<close>, and \<open>pageNo\<close>
  and \<open>pageLimit\<close> for \<^verbatim>\<open>page\<close> and \<^verbatim>\<open>limit\<close> of \<^verbatim>\<open>Pagination\<close>.
\<close>

record movie =
  movie_title :: string
  movie_slug :: string
  movie_thumbnail :: "string option"

record category =
  cat_id :: int
  cat_slug :: string

record pagination =
  pageNo :: nat
  pageLimit :: nat
  total :: nat
  totalPages :: nat
  hasNextPage :: bool
  hasPrevPage :: bool

record 'a APIResponse =
  success :: bool
  data :: "'a option"
  error :: "string option"
  pagination :: "pagination option"

text \<open>
  A thrown value: an instance of \<^verbatim>\<open>Error\<close> with its message (the \<^verbatim>\<open>TypeError\<close> of a
  failed \<^verbatim>\<open>fetch\<close>, the \<^verbatim>\<open>SyntaxError\<close> of \<^verbatim>\<open>res.json()\<close> on malformed JSON, an error
  the code throws itself), or anything else.
\<close>

datatype fault = Error string | NonError

section \<open>Rendering numbers in template literals\<close>

text \<open>
  \<^verbatim>\<open>`${n}`\<close> for a number that is an integer of magnitude below \<open>10^21\<close>: decimal
  digits, with a minus sign when negative. Page numbers, limits, statuses and
  identifiers are such numbers; for a fraction or from \<open>10^21\<close> on JavaScript prints
  other forms (\<^verbatim>\<open>1.5\<close>, \<^verbatim>\<open>1e+21\<close>), which \<open>show_int\<close> does not render.
\<close>

definition digit :: "nat \<Rightarrow> char" where
  "digit d = ''0123456789'' ! d"

fun show_nat :: "nat \<Rightarrow> string" where
  "show_nat n =
     (if n < 10 then [digit n] else show_nat (n div 10) @ [digit (n mod 10)])"

definition show_int :: "int \<Rightarrow> string" where
  "show_int i = (if i < 0 then ''-'' @ show_nat (nat (- i)) else show_nat (nat i))"

section \<open>The fetch client (src/lib/api.ts)\<close>

text \<open>
  \<^verbatim>\<open>API_BASE = import.meta.env.PUBLIC_API_URL || 'http://localhost:8080/api'\<close>:
  the default replaces an unset or empty variable.
\<close>

definition API_BASE :: "string option \<Rightarrow> string" where
  "API_BASE env =
     (case env of
        None \<Rightarrow> ''http://localhost:8080/api''
      | Some url \<Rightarrow> if url = [] then ''http://localhost:8080/api'' else url)"

text \<open>
  The platform's \<^verbatim>\<open>fetch\<close> is a parameter: a function from the URL to a thrown fault
  (network failure) or a response, of which the code reads the status, \<^verbatim>\<open>ok\<close>
  (status in 200..299) and the outcome of \<^verbatim>\<open>res.json()\<close>: a thrown fault (malformed
  JSON) or the deserialised envelope. Every operation returns its result together
  with the list of the URLs it requested. Logging to the console is not modelled.
\<close>

record 'a fetch_response =
  res_status :: nat
  res_json :: "fault + 'a APIResponse"

type_synonym 'a fetch = "string \<Rightarrow> fault + 'a fetch_response"

definition ok :: "'a fetch_response \<Rightarrow> bool" where
  "ok res = (200 \<le> res_status res \<and> res_status res \<le> 299)"

text \<open>A parameter with a default value: \<open>None\<close> is the omitted argument.\<close>

definition default_arg :: "'a \<Rightarrow> 'a option \<Rightarrow> 'a" where
  "default_arg d x = (case x of None \<Rightarrow> d | Some v \<Rightarrow> v)"

text \<open>The URL of each operation, as its template literal builds it.\<close>

definition home_url :: "string \<Rightarrow> int option \<Rightarrow> string" where
  "home_url apiBase page =
     apiBase @ ''/home?page='' @ show_int (default_arg 1 page)"

definition movies_url :: "string \<Rightarrow> int option \<Rightarrow> int option \<Rightarrow> string" where
  "movies_url apiBase page limit =
     apiBase @ ''/movies?page='' @ show_int (default_arg 1 page)
       @ ''&limit='' @ show_int (default_arg 20 limit)"

definition trending_url :: "string \<Rightarrow> string" where
  "trending_url apiBase =
     apiBase @ ''/movies/trending''"

definition movie_url :: "string \<Rightarrow> string \<Rightarrow> string" where
  "movie_url apiBase slug =
     apiBase @ ''/movies/'' @ slug"

definition categories_url :: "string \<Rightarrow> string" where
  "categories_url apiBase =
     apiBase @ ''/categories''"

definition category_url :: "string \<Rightarrow> string \<Rightarrow> int option \<Rightarrow> int option \<Rightarrow> string" where
  "category_url apiBase slug page limit =
     apiBase @ ''/categories/'' @ slug @ ''?page='' @ show_int (default_arg 1 page)
       @ ''&limit='' @ show_int (default_arg 20 limit)"

definition static_page_url :: "string \<Rightarrow> string \<Rightarrow> string" where
  "static_page_url apiBase slug =
     apiBase @ ''/static-pages/'' @ slug"

definition settings_url :: "string \<Rightarrow> string" where
  "settings_url apiBase =
     apiBase @ ''/astro-settings''"

text \<open>
  The eight operations without a \<^verbatim>\<open>try\<close>: \<^verbatim>\<open>await fetch(url)\<close>, then
  \<^verbatim>\<open>await res.json()\<close>, then \<^verbatim>\<open>return json\<close>. A fault of either call leaves the function.
\<close>

definition getHomePageData ::
  "'a fetch \<Rightarrow> string \<Rightarrow> int option
     \<Rightarrow> (fault + 'a APIResponse) \<times> string list" where
  "getHomePageData fetch apiBase page =
     (let url = home_url apiBase page in
      case fetch url of
        Inl e \<Rightarrow> (Inl e, [url])
      | Inr res \<Rightarrow>
          (case res_json res of
             Inl e \<Rightarrow> (Inl e, [url])
           | Inr json \<Rightarrow> (Inr json, [url])))"

definition getMovies ::
  "'a fetch \<Rightarrow> string \<Rightarrow> int option \<Rightarrow> int option
     \<Rightarrow> (fault + 'a APIResponse) \<times> string list" where
  "getMovies fetch apiBase page limit =
     (let url = movies_url apiBase page limit in
      case fetch url of
        Inl e \<Rightarrow> (Inl e, [url])
      | Inr res \<Rightarrow>
          (case res_json res of
             Inl e \<Rightarrow> (Inl e, [url])
           | Inr json \<Rightarrow> (Inr json, [url])))"

definition getTrendingMovies ::
  "'a fetch \<Rightarrow> string \<Rightarrow> (fault + 'a APIResponse) \<times> string list" where
  "getTrendingMovies fetch apiBase =
     (let url = trending_url apiBase in
      case fetch url of
        Inl e \<Rightarrow> (Inl e, [url])
      | Inr res \<Rightarrow>
          (case res_json res of
             Inl e \<Rightarrow> (Inl e, [url])
           | Inr json \<Rightarrow> (Inr json, [url])))"

definition getMovieBySlug ::
  "'a fetch \<Rightarrow> string \<Rightarrow> string
     \<Rightarrow> (fault + 'a APIResponse) \<times> string list" where
  "getMovieBySlug fetch apiBase slug =
     (let url = movie_url apiBase slug in
      case fetch url of
        Inl e \<Rightarrow> (Inl e, [url])
      | Inr res \<Rightarrow>
          (case res_json res of
             Inl e \<Rightarrow> (Inl e, [url])
           | Inr json \<Rightarrow> (Inr json, [url])))"

definition getCategories ::
  "'a fetch \<Rightarrow> string \<Rightarrow> (fault + 'a APIResponse) \<times> string list" where
  "getCategories fetch apiBase =
     (let url = categories_url apiBase in
      case fetch url of
        Inl e \<Rightarrow> (Inl e, [url])
      | Inr res \<Rightarrow>
          (case res_json res of
             Inl e \<Rightarrow> (Inl e, [url])
           | Inr json \<Rightarrow> (Inr json, [url])))"

definition getCategoryBySlug ::
  "'a fetch \<Rightarrow> string \<Rightarrow> string \<Rightarrow> int option \<Rightarrow> int option
     \<Rightarrow> (fault + 'a APIResponse) \<times> string list" where
  "getCategoryBySlug fetch apiBase slug page limit =
     (let url = category_url apiBase slug page limit in
      case fetch url of
        Inl e \<Rightarrow> (Inl e, [url])
      | Inr res \<Rightarrow>
          (case res_json res of
             Inl e \<Rightarrow> (Inl e, [url])
           | Inr json \<Rightarrow> (Inr json, [url])))"

definition getStaticPage ::
  "'a fetch \<Rightarrow> string \<Rightarrow> string
     \<Rightarrow> (fault + 'a APIResponse) \<times> string list" where
  "getStaticPage fetch apiBase slug =
     (let url = static_page_url apiBase slug in
      case fetch url of
        Inl e \<Rightarrow> (Inl e, [url])
      | Inr res \<Rightarrow>
          (case res_json res of
             Inl e \<Rightarrow> (Inl e, [url])
           | Inr json \<Rightarrow> (Inr json, [url])))"

definition getPublicSettings ::
  "'a fetch \<Rightarrow> string \<Rightarrow> (fault + 'a APIResponse) \<times> string list" where
  "getPublicSettings fetch apiBase =
     (let url = settings_url apiBase in
      case fetch url of
        Inl e \<Rightarrow> (Inl e, [url])
      | Inr res \<Rightarrow>
          (case res_json res of
             Inl e \<Rightarrow> (Inl e, [url])
           | Inr json \<Rightarrow> (Inr json, [url])))"

subsection \<open>searchMovies\<close>

text \<open>
  \<^verbatim>\<open>encodeURIComponent\<close> on the UTF-8 bytes of the query: the unreserved characters
  \<^verbatim>\<open>A-Z a-z 0-9 - _ . ! ~ * ' ( )\<close> stay, every other byte becomes \<^verbatim>\<open>%XX\<close> with
  upper-case hexadecimal digits. (A JavaScript string with a lone surrogate, on which
  the function throws, has no UTF-8 encoding and is not a value of this model.)
\<close>

definition uri_unreserved :: "char \<Rightarrow> bool" where
  "uri_unreserved c =
     (c \<in> set ''ABCDEFGHIJKLMNOPQRSTUVWXYZabcdefghijklmnopqrstuvwxyz0123456789-_.!~*()''
      \<or> c = CHR 0x27)"

definition hex_digit :: "nat \<Rightarrow> char" where
  "hex_digit d = ''0123456789ABCDEF'' ! d"

definition percent_encode :: "char \<Rightarrow> string" where
  "percent_encode c =
     [CHR ''%'', hex_digit (of_char c div 16), hex_digit (of_char c mod 16)]"

definition encodeURIComponent :: "string \<Rightarrow> string" where
  "encodeURIComponent str =
     concat (map (\<lambda>c. if uri_unreserved c then [c] else percent_encode c) str)"

definition search_url :: "string \<Rightarrow> string \<Rightarrow> int option \<Rightarrow> int option \<Rightarrow> string" where
  "search_url apiBase query page limit =
     apiBase @ ''/search?q='' @ encodeURIComponent query
       @ ''&page='' @ show_int (default_arg 1 page)
       @ ''&limit='' @ show_int (default_arg 20 limit)"

text \<open>
  The object built in the \<^verbatim>\<open>catch\<close> block: \<^verbatim>\<open>success: false\<close> and, as \<^verbatim>\<open>error\<close>, the
  message of a caught \<^verbatim>\<open>Error\<close> or the fixed text for any other thrown value.
\<close>

definition search_failure :: "fault \<Rightarrow> 'a APIResponse" where
  "search_failure e =
     \<lparr>success = False, data = None,
      error = Some (case e of Error message \<Rightarrow> message | NonError \<Rightarrow> ''Failed to search movies''),
      pagination = None\<rparr>"

definition searchMovies ::
  "'a fetch \<Rightarrow> string \<Rightarrow> string \<Rightarrow> int option \<Rightarrow> int option \<Rightarrow> 'a APIResponse \<times> string list" where
  "searchMovies fetch apiBase query page limit =
     (let url = search_url apiBase query page limit in
      case fetch url of
        Inl e \<Rightarrow> (search_failure e, [url])
      | Inr res \<Rightarrow>
          if \<not> ok res
          then (search_failure (Error (''Search API returned '' @ show_nat (res_status res))), [url])
          else (case res_json res of
                  Inl e \<Rightarrow> (search_failure e, [url])
                | Inr json \<Rightarrow> (json, [url])))"

subsection \<open>The contract of the unguarded operations\<close>

text \<open>
  The contract in the specification's words: one GET of the URL, and the caller
  receives what came of it, a fault of the request, a fault of the deserialisation, or
  the deserialised envelope as it is.
\<close>

definition single_get :: "'a fetch \<Rightarrow> string \<Rightarrow> (fault + 'a APIResponse) \<times> string list" where
  "single_get fetch url = (case fetch url of Inl e \<Rightarrow> Inl e | Inr res \<Rightarrow> res_json res, [url])"

section \<open>The sitemap generator (src/pages/sitemap.xml.ts)\<close>

subsection \<open>escapeXml\<close>

text \<open>
  \<^verbatim>\<open>text.replace(/c/g, r)\<close> for a single character \<open>c\<close> and a replacement without
  \<^verbatim>\<open>$\<close>: every occurrence of \<open>c\<close> becomes \<open>r\<close>.
\<close>

definition replaceAll :: "char \<Rightarrow> string \<Rightarrow> string \<Rightarrow> string" where
  "replaceAll c r str = concat (map (\<lambda>x. if x = c then r else [x]) str)"

text \<open>The five replacements of \<^verbatim>\<open>escapeXml\<close>, in the order of the source.\<close>

definition escapeXml :: "string \<Rightarrow> string" where
  "escapeXml str =
     replaceAll (CHR 0x27) ''&apos;''
       (replaceAll (CHR 0x22) ''&quot;''
         (replaceAll CHR ''>'' ''&gt;''
           (replaceAll CHR ''<'' ''&lt;''
             (replaceAll CHR ''&'' ''&amp;'' str))))"

text \<open>The five characters \<^verbatim>\<open>& < > " '\<close>, and what each character becomes.\<close>

definition xml_special :: "char set" where
  "xml_special = {CHR ''&'', CHR ''<'', CHR ''>'', CHR 0x22, CHR 0x27}"

fun escapeChar :: "char \<Rightarrow> string" where
  "escapeChar c =
     (if c = CHR ''&'' then ''&amp;''
      else if c = CHR ''<'' then ''&lt;''
      else if c = CHR ''>'' then ''&gt;''
      else if c = CHR 0x22 then ''&quot;''
      else if c = CHR 0x27 then ''&apos;''
      else [c])"

subsection \<open>fetchSitemapData\<close>

text \<open>
  The two endpoints the generator calls. It reads neither the status nor \<^verbatim>\<open>ok\<close> of a
  response, so an endpoint is the outcome of \<^verbatim>\<open>fetch\<close> followed by \<^verbatim>\<open>json()\<close>: a thrown
  fault (network failure, malformed JSON, a body such as \<^verbatim>\<open>null\<close> whose fields cannot be
  read) or an envelope. The movie endpoint is a function of the \<^verbatim>\<open>page\<close> and \<^verbatim>\<open>limit\<close>
  of the request URL; the loop asks for every page at most once. Page numbers are
  natural numbers (JavaScript's doubles count exactly up to \<open>2^53\<close>).
\<close>

record sitemap_api =
  listMovies :: "nat \<Rightarrow> nat \<Rightarrow> fault + movie list APIResponse"
  listCategories :: "fault + category list APIResponse"

datatype request = MoviesRequest nat nat | CategoriesRequest

text \<open>
  The \<^verbatim>\<open>while (hasMore)\<close> loop, from the state \<open>allMovies\<close>, \<open>page\<close> and the requests
  issued so far. It returns the fault thrown by a request, or the final \<open>allMovies\<close>,
  with the requests issued; \<open>None\<close> is a loop that runs forever.
\<close>

partial_function (option) fetchAllMovies ::
  "(nat \<Rightarrow> nat \<Rightarrow> fault + movie list APIResponse) \<Rightarrow> movie list \<Rightarrow> nat \<Rightarrow> request list
     \<Rightarrow> ((fault + movie list) \<times> request list) option"
where
  "fetchAllMovies fetchMovies allMovies page requests =
     (let limit = 500 in
      case fetchMovies page limit of
        Inl e \<Rightarrow> Some (Inl e, requests @ [MoviesRequest page limit])
      | Inr moviesData \<Rightarrow>
          if success moviesData \<and> data moviesData \<noteq> None \<and> length (the (data moviesData)) > 0
          then
            (if pagination moviesData \<noteq> None \<and> hasNextPage (the (pagination moviesData))
             then fetchAllMovies fetchMovies (allMovies @ the (data moviesData)) (page + 1)
                    (requests @ [MoviesRequest page limit])
             else Some (Inr (allMovies @ the (data moviesData)),
                        requests @ [MoviesRequest page limit]))
          else Some (Inr allMovies, requests @ [MoviesRequest page limit]))"

text \<open>
  \<^verbatim>\<open>fetchSitemapData\<close>: the loop from page 1, then the categories; the \<^verbatim>\<open>catch\<close> block
  turns a fault of any request into two empty lists. The result is the pair
  \<^verbatim>\<open>{ movies, categories }\<close>, where \<open>categories\<close> is \<open>None\<close> when the envelope has
  \<^verbatim>\<open>success\<close> true and no \<^verbatim>\<open>data\<close> (the value is \<^verbatim>\<open>undefined\<close>).
\<close>

definition fetchSitemapData ::
  "sitemap_api \<Rightarrow> ((movie list \<times> category list option) \<times> request list) option" where
  "fetchSitemapData api =
     (case fetchAllMovies (listMovies api) [] 1 [] of
        None \<Rightarrow> None
      | Some (Inl e, requests) \<Rightarrow> Some (([], Some []), requests)
      | Some (Inr allMovies, requests) \<Rightarrow>
          (case listCategories api of
             Inl e \<Rightarrow> Some (([], Some []), requests @ [CategoriesRequest])
           | Inr categoriesData \<Rightarrow>
               Some ((allMovies,
                      if success categoriesData then data categoriesData else Some []),
                     requests @ [CategoriesRequest])))"

subsection \<open>GET\<close>

record static_page =
  path :: string
  priority :: string
  changefreq :: string

definition staticPages :: "static_page list" where
  "staticPages =
     [\<lparr>path = ''/page/privacy-policy'', priority = ''0.7'', changefreq = ''monthly''\<rparr>,
      \<lparr>path = ''/page/contact-us'', priority = ''0.7'', changefreq = ''monthly''\<rparr>,
      \<lparr>path = ''/page/about-us'', priority = ''0.7'', changefreq = ''monthly''\<rparr>,
      \<lparr>path = ''/page/dmca'', priority = ''0.7'', changefreq = ''monthly''\<rparr>,
      \<lparr>path = ''/page/how-to-download-movie'', priority = ''0.8'', changefreq = ''monthly''\<rparr>,
      \<lparr>path = ''/search'', priority = ''0.6'', changefreq = ''weekly''\<rparr>]"

text \<open>The template literals of \<^verbatim>\<open>GET\<close>, one definition for each.\<close>

definition xml_header :: string where
  \<open>xml_header =
     ''<?xml version="1.0" encoding="UTF-8"?>\<newline>'' @
     ''<urlset xmlns="http://www.sitemaps.org/schemas/sitemap/0.9"\<newline>'' @
     ''        xmlns:image="http://www.google.com/schemas/sitemap-image/1.1"\<newline>'' @
     ''        xmlns:news="http://www.google.com/schemas/sitemap-news/0.9">\<newline>''\<close>

definition root_entry :: "string \<Rightarrow> string \<Rightarrow> string" where
  "root_entry baseUrl currentDate =
     ''  <url>\<newline>'' @
     ''    <loc>'' @ baseUrl @ ''/</loc>\<newline>'' @
     ''    <lastmod>'' @ currentDate @ ''</lastmod>\<newline>'' @
     ''    <changefreq>daily</changefreq>\<newline>'' @
     ''    <priority>1.0</priority>\<newline>'' @
     ''  </url>\<newline>''"

definition static_entry :: "string \<Rightarrow> string \<Rightarrow> static_page \<Rightarrow> string" where
  "static_entry baseUrl currentDate page =
     ''  <url>\<newline>'' @
     ''    <loc>'' @ baseUrl @ path page @ ''</loc>\<newline>'' @
     ''    <lastmod>'' @ currentDate @ ''</lastmod>\<newline>'' @
     ''    <changefreq>'' @ changefreq page @ ''</changefreq>\<newline>'' @
     ''    <priority>'' @ priority page @ ''</priority>\<newline>'' @
     ''  </url>\<newline>''"

definition category_entry :: "string \<Rightarrow> string \<Rightarrow> category \<Rightarrow> string" where
  "category_entry baseUrl currentDate category =
     ''  <url>\<newline>'' @
     ''    <loc>'' @ baseUrl @ ''/category/'' @ show_int (cat_id category) @ ''/''
        @ cat_slug category @ ''</loc>\<newline>'' @
     ''    <lastmod>'' @ currentDate @ ''</lastmod>\<newline>'' @
     ''    <changefreq>weekly</changefreq>\<newline>'' @
     ''    <priority>0.9</priority>\<newline>'' @
     ''  </url>\<newline>''"

definition movie_open :: "string \<Rightarrow> string \<Rightarrow> movie \<Rightarrow> string" where
  "movie_open baseUrl currentDate movie =
     ''  <url>\<newline>'' @
     ''    <loc>'' @ baseUrl @ ''/'' @ movie_slug movie @ ''</loc>\<newline>'' @
     ''    <lastmod>'' @ currentDate @ ''</lastmod>\<newline>'' @
     ''    <changefreq>weekly</changefreq>\<newline>'' @
     ''    <priority>0.8</priority>''"

definition image_block :: "string \<Rightarrow> string \<Rightarrow> string" where
  "image_block escapedThumbnail escapedTitle =
     ''\<newline>'' @
     ''    <image:image>\<newline>'' @
     ''      <image:loc>'' @ escapedThumbnail @ ''</image:loc>\<newline>'' @
     ''      <image:title>'' @ escapedTitle @ ''</image:title>\<newline>'' @
     ''    </image:image>''"

definition movie_close :: string where
  "movie_close = ''\<newline>'' @ ''  </url>\<newline>''"

text \<open>
  The body of the callback of \<^verbatim>\<open>movies.forEach\<close>: what one movie appends to
  \<open>sitemap\<close>. \<^verbatim>\<open>if (movie.thumbnail)\<close> holds for a thumbnail that is present and not
  the empty string.
\<close>

definition movie_entry :: "string \<Rightarrow> string \<Rightarrow> movie \<Rightarrow> string" where
  "movie_entry baseUrl currentDate movie =
     (let sitemap = movie_open baseUrl currentDate movie;
          sitemap =
            (if movie_thumbnail movie \<noteq> None \<and> the (movie_thumbnail movie) \<noteq> []
             then
               (let escapedTitle = escapeXml (movie_title movie);
                    escapedThumbnail = escapeXml (the (movie_thumbnail movie))
                in sitemap @ image_block escapedThumbnail escapedTitle)
             else sitemap)
      in sitemap @ movie_close)"

text \<open>
  The document: the string \<open>sitemap\<close> is extended entry by entry
  (\<^verbatim>\<open>xs.forEach(x => { sitemap += ... })\<close> is a left fold). \<^verbatim>\<open>categories.forEach\<close> on
  \<^verbatim>\<open>undefined\<close> throws a \<^verbatim>\<open>TypeError\<close>, whose message is the engine's (here V8's).
\<close>

definition build_sitemap ::
  "string \<Rightarrow> string \<Rightarrow> category list option \<Rightarrow> movie list \<Rightarrow> fault + string" where
  "build_sitemap baseUrl currentDate categories movies =
     (let sitemap = xml_header;
          sitemap = sitemap @ root_entry baseUrl currentDate;
          sitemap = foldl (\<lambda>sitemap page. sitemap @ static_entry baseUrl currentDate page)
                      sitemap staticPages
      in case categories of
           None \<Rightarrow> Inl (Error ''Cannot read properties of undefined (reading 'forEach')'')
         | Some cats \<Rightarrow>
             (let sitemap = foldl (\<lambda>sitemap category.
                                     sitemap @ category_entry baseUrl currentDate category)
                              sitemap cats;
                  sitemap = foldl (\<lambda>sitemap movie. sitemap @ movie_entry baseUrl currentDate movie)
                              sitemap movies
              in Inr (sitemap @ ''</urlset>'')))"

record response =
  status :: nat
  headers :: "(string \<times> string) list"
  body :: string

text \<open>
  \<^verbatim>\<open>siteUrl.replace(/\/$/, '')\<close> removes one slash at the end of the string.
\<close>

definition strip_trailing_slash :: "string \<Rightarrow> string" where
  "strip_trailing_slash url = (if url \<noteq> [] \<and> last url = CHR ''/'' then butlast url else url)"

definition siteUrl :: "string option \<Rightarrow> string" where
  "siteUrl PUBLIC_SITE_URL =
     (case PUBLIC_SITE_URL of
        None \<Rightarrow> ''https://filmyfly.work''
      | Some url \<Rightarrow> if url = [] then ''https://filmyfly.work'' else url)"

definition baseUrl_of :: "string option \<Rightarrow> string" where
  "baseUrl_of PUBLIC_SITE_URL = strip_trailing_slash (siteUrl PUBLIC_SITE_URL)"

definition currentDate_of :: "string \<Rightarrow> string" where
  "currentDate_of now = takeWhile (\<lambda>c. c \<noteq> CHR ''T'') now"

definition xml_response :: "string \<Rightarrow> response" where
  "xml_response sitemap =
     \<lparr>status = 200,
      headers = [(''Content-Type'', ''application/xml; charset=utf-8''),
                 (''Cache-Control'', ''public, max-age=3600'')],
      body = sitemap\<rparr>"

text \<open>
  \<^verbatim>\<open>GET\<close>, given the two endpoints, the environment variable \<^verbatim>\<open>PUBLIC_SITE_URL\<close> and
  the value of \<^verbatim>\<open>new Date().toISOString()\<close>, of which \<^verbatim>\<open>split('T')[0]\<close> keeps the part
  before the first \<^verbatim>\<open>T\<close>. \<open>None\<close>: the call never returns; \<open>Some (Inl e)\<close>: it throws
  \<open>e\<close> to the caller; \<open>Some (Inr r)\<close>: it returns the response \<open>r\<close>.
\<close>

definition GET :: "sitemap_api \<Rightarrow> string option \<Rightarrow> string \<Rightarrow> (fault + response) option" where
  "GET api PUBLIC_SITE_URL now =
     (case fetchSitemapData api of
        None \<Rightarrow> None
      | Some ((movies, categories), requests) \<Rightarrow>
          (let baseUrl = baseUrl_of PUBLIC_SITE_URL;
               currentDate = currentDate_of now
           in case build_sitemap baseUrl currentDate categories movies of
                Inl e \<Rightarrow> Some (Inl e)
              | Inr sitemap \<Rightarrow> Some (Inr (xml_response sitemap))))"

subsection \<open>A backend that serves a catalogue in pages\<close>

text \<open>
  The backend is not part of the repository. For the regression scenario of the
  specification (a catalogue larger than one page) the movie endpoint is taken to serve
  the catalogue in consecutive pages of \<open>limit\<close> movies and to report \<open>hasNextPage\<close>
  while movies remain after the page.
\<close>

definition catalogPage :: "movie list \<Rightarrow> nat \<Rightarrow> nat \<Rightarrow> movie list APIResponse" where
  "catalogPage catalog page limit =
     \<lparr>success = True,
      data = Some (take limit (drop ((page - 1) * limit) catalog)),
      error = None,
      pagination = Some \<lparr>pageNo = page, pageLimit = limit, total = length catalog,
                          totalPages = (length catalog + limit - 1) div limit,
                          hasNextPage = (page * limit < length catalog),
                          hasPrevPage = (1 < page)\<rparr>\<rparr>"

definition pagedCatalog :: "movie list \<Rightarrow> nat \<Rightarrow> nat \<Rightarrow> fault + movie list APIResponse" where
  "pagedCatalog catalog page limit = Inr (catalogPage catalog page limit)"

text \<open>A catalogue of \<open>n\<close> movies with distinct slugs.\<close>

definition sampleCatalog :: "nat \<Rightarrow> movie list" where
  "sampleCatalog n =
     map (\<lambda>i. \<lparr>movie_title = ''Movie '' @ show_nat i, movie_slug = ''movie-'' @ show_nat i,
                movie_thumbnail = None\<rparr>) [0..<n]"

text \<open>
  A backend whose every page holds one movie and announces a next page.
\<close>

definition endlessPage :: "movie list APIResponse" where
  "endlessPage =
     \<lparr>success = True,
      data = Some [\<lparr>movie_title = ''Again'', movie_slug = ''again'', movie_thumbnail = None\<rparr>],
      error = None,
      pagination = Some \<lparr>pageNo = 1, pageLimit = 500, total = 1, totalPages = 1,
                          hasNextPage = True, hasPrevPage = False\<rparr>\<rparr>"

definition endlessBackend :: "nat \<Rightarrow> nat \<Rightarrow> fault + movie list APIResponse" where
  "endlessBackend page limit = Inr endlessPage"

subsection \<open>Sample backends\<close>

definition movieA :: movie where
  "movieA = \<lparr>movie_title = ''Tom & Jerry'', movie_slug = ''tom-and-jerry'',
             movie_thumbnail = Some ''https://img.example/tj.jpg?w=1&h=2''\<rparr>"

definition movieB :: movie where
  "movieB = \<lparr>movie_title = ''Jawan'', movie_slug = ''jawan-2023'', movie_thumbnail = None\<rparr>"

definition categoryA :: category where
  "categoryA = \<lparr>cat_id = 7, cat_slug = ''bollywood''\<rparr>"

text \<open>Two pages: page 1 holds \<open>movieA\<close> and announces a next page, page 2 holds \<open>movieB\<close>.\<close>

definition twoPages :: "nat \<Rightarrow> movie list APIResponse" where
  "twoPages page =
     (if page = 1
      then \<lparr>success = True, data = Some [movieA], error = None,
            pagination = Some \<lparr>pageNo = 1, pageLimit = 500, total = 2, totalPages = 2,
                                hasNextPage = True, hasPrevPage = False\<rparr>\<rparr>
      else \<lparr>success = True, data = Some [movieB], error = None,
            pagination = Some \<lparr>pageNo = page, pageLimit = 500, total = 2, totalPages = 2,
                                hasNextPage = False, hasPrevPage = True\<rparr>\<rparr>)"

text \<open>An envelope that reports a failure, and one page without a pagination object.\<close>

definition failedEnvelope :: "'a APIResponse" where
  "failedEnvelope =
     \<lparr>success = False, data = None, error = Some ''Internal server error'', pagination = None\<rparr>"

definition unpagedPage :: "movie list APIResponse" where
  "unpagedPage = \<lparr>success = True, data = Some [movieA, movieB], error = None, pagination = None\<rparr>"

text \<open>
  Pairs of endpoints: both healthy; the categories request throwing; the movie endpoint
  reporting a failure; the movie endpoint throwing; the endless movie endpoint; and a
  category envelope with \<^verbatim>\<open>success\<close> true and no \<^verbatim>\<open>data\<close>.
\<close>

definition categoriesEnvelope :: "category list APIResponse" where
  "categoriesEnvelope = \<lparr>success = True, data = Some [categoryA], error = None, pagination = None\<rparr>"

definition sampleApi :: sitemap_api where
  "sampleApi = \<lparr>listMovies = (\<lambda>page limit. Inr (twoPages page)),
                listCategories = Inr categoriesEnvelope\<rparr>"






definition noCategoryDataApi :: sitemap_api where
  "noCategoryDataApi =
     \<lparr>listMovies = (\<lambda>page limit. Inr (twoPages page)),
      listCategories = Inr \<lparr>success = True, data = None, error = None, pagination = None\<rparr>\<rparr>"

text \<open>A movie whose slug holds an ampersand, served alone on one page.\<close>

definition ampersandMovie :: movie where
  "ampersandMovie =
     \<lparr>movie_title = ''Fast & Furious'', movie_slug = ''fast&furious'', movie_thumbnail = None\<rparr>"

definition ampersandApi :: sitemap_api where
  "ampersandApi =
     \<lparr>listMovies = (\<lambda>page limit. Inr \<lparr>success = True, data = Some [ampersandMovie],
                                         error = None, pagination = None\<rparr>),
      listCategories = Inr failedEnvelope\<rparr>"

text \<open>
  A movie without a thumbnail whose slug closes the \<^verbatim>\<open><loc>\<close> element, holds an image
  block and opens a second \<^verbatim>\<open><url>\<close> element; it is served alone on one page, and
  the category envelope reports a failure. \<open>injectedDocument\<close> is the text of the
  document for it, with the site URL \<^verbatim>\<open>https://filmyfly.work\<close> and the date 2026-11-03.
\<close>

definition injectedMovie :: movie where
  "injectedMovie =
     \<lparr>movie_title = ''Injected'',
      movie_slug = ''a</loc><image:image><image:loc>https://evil.example/i.jpg</image:loc>''
                   @ ''</image:image></url><url><loc>https://evil.example/b'',
      movie_thumbnail = None\<rparr>"

definition injectionApi :: sitemap_api where
  "injectionApi =
     \<lparr>listMovies = (\<lambda>page limit. Inr \<lparr>success = True, data = Some [injectedMovie],
                                         error = None, pagination = None\<rparr>),
      listCategories = Inr failedEnvelope\<rparr>"

definition injectedDocument :: string where
  \<open>injectedDocument =
     ''<?xml version="1.0" encoding="UTF-8"?>\<newline>'' @
     ''<urlset xmlns="http://www.sitemaps.org/schemas/sitemap/0.9"\<newline>'' @
     ''        xmlns:image="http://www.google.com/schemas/sitemap-image/1.1"\<newline>'' @
     ''        xmlns:news="http://www.google.com/schemas/sitemap-news/0.9">\<newline>'' @
     ''  <url>\<newline>'' @
     ''    <loc>https://filmyfly.work/</loc>\<newline>'' @
     ''    <lastmod>2026-11-03</lastmod>\<newline>'' @
     ''    <changefreq>daily</changefreq>\<newline>'' @
     ''    <priority>1.0</priority>\<newline>'' @
     ''  </url>\<newline>'' @
     ''  <url>\<newline>'' @
     ''    <loc>https://filmyfly.work/page/privacy-policy</loc>\<newline>'' @
     ''    <lastmod>2026-11-03</lastmod>\<newline>'' @
     ''    <changefreq>monthly</changefreq>\<newline>'' @
     ''    <priority>0.7</priority>\<newline>'' @
     ''  </url>\<newline>'' @
     ''  <url>\<newline>'' @
     ''    <loc>https://filmyfly.work/page/contact-us</loc>\<newline>'' @
     ''    <lastmod>2026-11-03</lastmod>\<newline>'' @
     ''    <changefreq>monthly</changefreq>\<newline>'' @
     ''    <priority>0.7</priority>\<newline>'' @
     ''  </url>\<newline>'' @
     ''  <url>\<newline>'' @
     ''    <loc>https://filmyfly.work/page/about-us</loc>\<newline>'' @
     ''    <lastmod>2026-11-03</lastmod>\<newline>'' @
     ''    <changefreq>monthly</changefreq>\<newline>'' @
     ''    <priority>0.7</priority>\<newline>'' @
     ''  </url>\<newline>'' @
     ''  <url>\<newline>'' @
     ''    <loc>https://filmyfly.work/page/dmca</loc>\<newline>'' @
     ''    <lastmod>2026-11-03</lastmod>\<newline>'' @
     ''    <changefreq>monthly</changefreq>\<newline>'' @
     ''    <priority>0.7</priority>\<newline>'' @
     ''  </url>\<newline>'' @
     ''  <url>\<newline>'' @
     ''    <loc>https://filmyfly.work/page/how-to-download-movie</loc>\<newline>'' @
     ''    <lastmod>2026-11-03</lastmod>\<newline>'' @
     ''    <changefreq>monthly</changefreq>\<newline>'' @
     ''    <priority>0.8</priority>\<newline>'' @
     ''  </url>\<newline>'' @
     ''  <url>\<newline>'' @
     ''    <loc>https://filmyfly.work/search</loc>\<newline>'' @
     ''    <lastmod>2026-11-03</lastmod>\<newline>'' @
     ''    <changefreq>weekly</changefreq>\<newline>'' @
     ''    <priority>0.6</priority>\<newline>'' @
     ''  </url>\<newline>'' @
     ''  <url>\<newline>'' @
     ''    <loc>https://filmyfly.work/a</loc><image:image><image:loc>https://evil.example/i.jpg</image:loc></image:image></url><url><loc>https://evil.example/b</loc>\<newline>'' @
     ''    <lastmod>2026-11-03</lastmod>\<newline>'' @
     ''    <changefreq>weekly</changefreq>\<newline>'' @
     ''    <priority>0.8</priority>\<newline>'' @
     ''  </url>\<newline>'' @
     ''</urlset>''\<close>

text \<open>Responses of \<^verbatim>\<open>fetch\<close> for the client: no network, and a 404 page that is not JSON.\<close>

definition offline :: "unit fetch" where
  "offline url = Inl (Error ''fetch failed'')"

definition notFound :: "unit fetch" where
  "notFound url = Inr \<lparr>res_status = 404, res_json = Inl (Error ''Unexpected token < in JSON'')\<rparr>"

definition serverError :: "unit fetch" where
  "serverError url = Inr \<lparr>res_status = 500, res_json = Inr failedEnvelope\<rparr>"

section \<open>Notions used to state the properties\<close>

subsection \<open>Pages of the aggregation loop\<close>

text \<open>
  The two tests of the loop body on an envelope: the page is appended
  (\<^verbatim>\<open>moviesData.success && moviesData.data && moviesData.data.length > 0\<close>), and
  another page is requested
  (\<^verbatim>\<open>moviesData.pagination && moviesData.pagination.hasNextPage\<close>).
\<close>

definition page_ok :: "'a list APIResponse \<Rightarrow> bool" where
  "page_ok r = (success r \<and> data r \<noteq> None \<and> length (the (data r)) > 0)"

definition more_pages :: "'a APIResponse \<Rightarrow> bool" where
  "more_pages r = (pagination r \<noteq> None \<and> hasNextPage (the (pagination r)))"

text \<open>What a page contributes to the result: its data when the page is appended.\<close>

definition page_data :: "'a list APIResponse \<Rightarrow> 'a list" where
  "page_data r = (if page_ok r then the (data r) else [])"

text \<open>
  The pages at which pagination ends, in the words of the specification: an envelope
  with \<^verbatim>\<open>success\<close> false, or with empty (or no) data, or with \<^verbatim>\<open>hasNextPage\<close> false
  (or no pagination object).
\<close>

definition ends_pagination :: "'a list APIResponse \<Rightarrow> bool" where
  "ends_pagination r =
     (\<not> success r \<or> data r = None \<or> data r = Some []
      \<or> pagination r = None \<or> \<not> hasNextPage (the (pagination r)))"

subsection \<open>Entries of the document\<close>

text \<open>
  The entries of the document in the order of the specification: the root entry, the
  static pages, the categories, the movies.
\<close>

definition sitemap_entries :: "string \<Rightarrow> string \<Rightarrow> category list \<Rightarrow> movie list \<Rightarrow> string list" where
  "sitemap_entries baseUrl currentDate cats ms =
     [root_entry baseUrl currentDate]
     @ map (static_entry baseUrl currentDate) staticPages
     @ map (category_entry baseUrl currentDate) cats
     @ map (movie_entry baseUrl currentDate) ms"

definition sitemap_document :: "string \<Rightarrow> string \<Rightarrow> category list \<Rightarrow> movie list \<Rightarrow> string" where
  "sitemap_document baseUrl currentDate cats ms =
     xml_header @ concat (sitemap_entries baseUrl currentDate cats ms) @ ''</urlset>''"

definition has_thumbnail :: "movie \<Rightarrow> bool" where
  "has_thumbnail m = (movie_thumbnail m \<noteq> None \<and> movie_thumbnail m \<noteq> Some [])"

text \<open>The number of places of a text at which a pattern occurs.\<close>

fun occurrences :: "string \<Rightarrow> string \<Rightarrow> nat" where
  "occurrences pat [] = 0"
| "occurrences pat (c # cs) = (if prefix pat (c # cs) then 1 else 0) + occurrences pat cs"

text \<open>
  Inputs that bring no \<^verbatim>\<open><\<close> of their own into the document: the site URL, the date
  and the slugs, which the generator inserts as they are.
\<close>

definition tag_free :: "string \<Rightarrow> bool" where
  "tag_free str = (CHR ''<'' \<notin> set str)"

definition tag_free_inputs :: "string \<Rightarrow> string \<Rightarrow> category list \<Rightarrow> movie list \<Rightarrow> bool" where
  "tag_free_inputs baseUrl currentDate cats ms =
     (tag_free baseUrl \<and> tag_free currentDate
      \<and> list_all (\<lambda>c. tag_free (cat_slug c)) cats
      \<and> list_all (\<lambda>m. tag_free (movie_slug m)) ms)"

subsection \<open>Ampersands of a well-formed document\<close>

text \<open>
  In the character data of a well-formed XML document every ampersand begins a
  reference: a name, or \<^verbatim>\<open>#\<close> and a number, closed by a semicolon. The check below
  runs over the whole text; the documents of the generator have neither comments nor
  CDATA sections, where an ampersand could stand alone.
\<close>

definition name_char :: "char \<Rightarrow> bool" where
  "name_char c =
     (c \<in> set ''ABCDEFGHIJKLMNOPQRSTUVWXYZabcdefghijklmnopqrstuvwxyz0123456789#'')"

definition begins_reference :: "string \<Rightarrow> bool" where
  "begins_reference str =
     (takeWhile name_char str \<noteq> [] \<and> prefix '';'' (dropWhile name_char str))"

fun ampersands_escaped :: "string \<Rightarrow> bool" where
  "ampersands_escaped [] = True"
| "ampersands_escaped (c # cs) =
     (if c = CHR ''&'' then begins_reference cs \<and> ampersands_escaped cs
      else ampersands_escaped cs)"

section \<open>escapeXml: the output has no markup character\<close>

lemma replaceAll_Nil [simp]: "replaceAll c r [] = []"
  by (simp add: replaceAll_def)

lemma replaceAll_Cons [simp]:
  "replaceAll c r (x # xs) = (if x = c then r else [x]) @ replaceAll c r xs"
  by (simp add: replaceAll_def)

lemma replaceAll_append [simp]:
  "replaceAll c r (xs @ ys) = replaceAll c r xs @ replaceAll c r ys"
  by (simp add: replaceAll_def)

lemma escapeXml_Nil [simp]: "escapeXml [] = []"
  by (simp add: escapeXml_def)

lemma escapeXml_append: "escapeXml (xs @ ys) = escapeXml xs @ escapeXml ys"
  by (simp add: escapeXml_def)

lemma escapeXml_single: "escapeXml [c] = escapeChar c"
  by (simp add: escapeXml_def)

lemma escapeXml_Cons: "escapeXml (c # cs) = escapeChar c @ escapeXml cs"
  using escapeXml_append [of "[c]" cs]
  by (simp only: escapeXml_single append_Cons append_Nil)

lemma escapeXml_charwise: "escapeXml str = concat (map escapeChar str)"
  by (induction str) (simp_all add: escapeXml_Cons del: escapeChar.simps)

lemma escapeChar_no_markup:
  "set (escapeChar c) \<inter> {CHR ''<'', CHR ''>'', CHR 0x22, CHR 0x27} = {}"
  by simp

lemma escapeXml_no_markup:
  "set (escapeXml str) \<inter> {CHR ''<'', CHR ''>'', CHR 0x22, CHR 0x27} = {}"
proof (induction str)
  case Nil
  show ?case by simp
next
  case (Cons c cs)
  show ?case
    using Cons.IH escapeChar_no_markup [of c]
    by (simp only: escapeXml_Cons set_append Int_Un_distrib2 Un_empty)
qed

lemma escapeChar_clean: "c \<notin> xml_special \<Longrightarrow> escapeChar c = [c]"
  unfolding xml_special_def by simp

lemma escapeXml_clean: "set str \<inter> xml_special = {} \<Longrightarrow> escapeXml str = str"
proof (induction str)
  case Nil
  show ?case by simp
next
  case (Cons c cs)
  from Cons.prems have c: "c \<notin> xml_special" and cs: "set cs \<inter> xml_special = {}"
    by (simp_all only: list.set insert_disjoint simp_thms)
  show ?case
    by (simp only: escapeXml_Cons escapeChar_clean [OF c] Cons.IH [OF cs] append_Cons append_Nil)
qed

text \<open>
  Claim C10. For every string the output of \<open>escapeXml\<close> contains none of the raw
  characters \<^verbatim>\<open>< > " '\<close>, and a string with none of the five characters
  \<^verbatim>\<open>& < > " '\<close> is returned unchanged.
\<close>

theorem escapeXml_output_clean_and_identity:
  "set (escapeXml str) \<inter> {CHR ''<'', CHR ''>'', CHR 0x22, CHR 0x27} = {} \<and>
   (set str \<inter> xml_special = {} \<longrightarrow> escapeXml str = str)"
proof (intro conjI impI)
  show "set (escapeXml str) \<inter> {CHR ''<'', CHR ''>'', CHR 0x22, CHR 0x27} = {}"
    by (rule escapeXml_no_markup)
next
  assume "set str \<inter> xml_special = {}"
  then show "escapeXml str = str" by (rule escapeXml_clean)
qed

theorem escapeXml_output_clean_and_identity_witness:
  "set (escapeXml ''Tom & Jerry <HD>'') \<inter> {CHR ''<'', CHR ''>'', CHR 0x22, CHR 0x27} = {} \<and>
   set ''Jawan 2023'' \<inter> xml_special = {} \<and> escapeXml ''Jawan 2023'' = ''Jawan 2023''"
proof -
  have clean: "set ''Jawan 2023'' \<inter> xml_special = {}"
    by (simp add: xml_special_def)
  from escapeXml_output_clean_and_identity [of "''Jawan 2023''"] clean
  have "escapeXml ''Jawan 2023'' = ''Jawan 2023''" by (simp only: simp_thms)
  with clean escapeXml_output_clean_and_identity [of "''Tom & Jerry <HD>''"]
  show ?thesis by (simp only: simp_thms)
qed

section \<open>The aggregation loop\<close>

lemma ends_pagination_iff: "ends_pagination r = (\<not> (page_ok r \<and> more_pages r))"
  by (cases "data r") (auto simp: ends_pagination_def page_ok_def more_pages_def)


lemma loop_continue:
  "f p 500 = Inr r \<Longrightarrow> page_ok r \<Longrightarrow> more_pages r \<Longrightarrow>
   fetchAllMovies f acc p rq =
     fetchAllMovies f (acc @ page_data r) (Suc p) (rq @ [MoviesRequest p 500])"
  by (subst fetchAllMovies.simps) (simp add: page_ok_def more_pages_def page_data_def)

lemma loop_stop:
  "f p 500 = Inr r \<Longrightarrow> \<not> (page_ok r \<and> more_pages r) \<Longrightarrow>
   fetchAllMovies f acc p rq = Some (Inr (acc @ page_data r), rq @ [MoviesRequest p 500])"
  by (subst fetchAllMovies.simps) (auto simp add: page_ok_def more_pages_def page_data_def)

lemma loop_run:
  assumes cont: "\<And>q. p \<le> q \<Longrightarrow> q < k \<Longrightarrow> page_ok (env q) \<and> more_pages (env q)"
    and stop: "\<not> (page_ok (env k) \<and> more_pages (env k))"
    and resp: "\<And>q. p \<le> q \<Longrightarrow> q \<le> k \<Longrightarrow> f q 500 = Inr (env q)"
    and le: "p \<le> k"
  shows "fetchAllMovies f acc p rq =
           Some (Inr (acc @ concat (map (\<lambda>q. page_data (env q)) [p..<Suc k])),
                 rq @ map (\<lambda>q. MoviesRequest q 500) [p..<Suc k])"
  using assms
proof (induction "k - p" arbitrary: p acc rq)
  case 0
  then have "p = k" by simp
  with 0 show ?case
    using loop_stop [of f k "env k" acc rq] by simp
next
  case (Suc n)
  then have lt: "p < k" by simp
  have step: "fetchAllMovies f acc p rq =
      fetchAllMovies f (acc @ page_data (env p)) (Suc p) (rq @ [MoviesRequest p 500])"
    using Suc.prems(1) [of p] Suc.prems(3) [of p] lt
    by (intro loop_continue) simp_all
  have "fetchAllMovies f (acc @ page_data (env p)) (Suc p) (rq @ [MoviesRequest p 500]) =
      Some (Inr ((acc @ page_data (env p)) @ concat (map (\<lambda>q. page_data (env q)) [Suc p..<Suc k])),
            (rq @ [MoviesRequest p 500]) @ map (\<lambda>q. MoviesRequest q 500) [Suc p..<Suc k])"
    using Suc.hyps(2) lt Suc.prems
    by (intro Suc.hyps(1)) simp_all
  with step lt show ?case
    by (simp add: upt_conv_Cons)
qed

lemma loop_returns_stops:
  assumes "fetchAllMovies f acc p rq = Some y"
  shows "\<exists>q\<ge>p. \<forall>r. f q 500 = Inr r \<longrightarrow> \<not> (page_ok r \<and> more_pages r)"
proof (rule fetchAllMovies.raw_induct
    [where P = "\<lambda>f acc p rq y. \<exists>q\<ge>p. \<forall>r. f q 500 = Inr r \<longrightarrow> \<not> (page_ok r \<and> more_pages r)",
     OF _ assms])
  fix loop :: "(nat \<Rightarrow> nat \<Rightarrow> fault + movie list APIResponse) \<Rightarrow> movie list \<Rightarrow> nat \<Rightarrow> request list
     \<Rightarrow> ((fault + movie list) \<times> request list) option"
  fix f acc p rq y
  assume IH: "\<And>f acc p rq y. loop f acc p rq = Some y \<Longrightarrow>
      \<exists>q\<ge>p. \<forall>r. f q 500 = Inr r \<longrightarrow> \<not> (page_ok r \<and> more_pages r)"
  assume body: "(let limit = 500 in
      case f p limit of
        Inl e \<Rightarrow> Some (Inl e, rq @ [MoviesRequest p limit])
      | Inr moviesData \<Rightarrow>
          if success moviesData \<and> data moviesData \<noteq> None \<and> length (the (data moviesData)) > 0
          then
            (if pagination moviesData \<noteq> None \<and> hasNextPage (the (pagination moviesData))
             then loop f (acc @ the (data moviesData)) (p + 1)
                    (rq @ [MoviesRequest p limit])
             else Some (Inr (acc @ the (data moviesData)),
                        rq @ [MoviesRequest p limit]))
          else Some (Inr acc, rq @ [MoviesRequest p limit])) = Some y"
  show "\<exists>q\<ge>p. \<forall>r. f q 500 = Inr r \<longrightarrow> \<not> (page_ok r \<and> more_pages r)"
  proof (cases "\<exists>r. f p 500 = Inr r \<and> page_ok r \<and> more_pages r")
    case False
    then have "\<forall>r. f p 500 = Inr r \<longrightarrow> \<not> (page_ok r \<and> more_pages r)" by blast
    then show ?thesis by blast
  next
    case True
    then obtain r where r: "f p 500 = Inr r" "page_ok r" "more_pages r" by blast
    with body have "loop f (acc @ the (data r)) (p + 1) (rq @ [MoviesRequest p 500]) = Some y"
      by (simp add: page_ok_def more_pages_def)
    from IH [OF this] obtain q where "q \<ge> p + 1"
      "\<forall>r. f q 500 = Inr r \<longrightarrow> \<not> (page_ok r \<and> more_pages r)" by blast
    then have "q \<ge> p \<and> (\<forall>r. f q 500 = Inr r \<longrightarrow> \<not> (page_ok r \<and> more_pages r))" by simp
    then show ?thesis by blast
  qed
qed

lemma loop_forever:
  assumes "\<And>q. p \<le> q \<Longrightarrow> \<exists>r. f q 500 = Inr r \<and> page_ok r \<and> more_pages r"
  shows "fetchAllMovies f acc p rq = None"
proof (cases "fetchAllMovies f acc p rq")
  case None
  then show ?thesis .
next
  case (Some y)
  from loop_returns_stops [OF this] assms show ?thesis by blast
qed

lemma concat_pages:
  "0 < l \<Longrightarrow> concat (map (\<lambda>q. take l (drop ((q - 1) * l) xs)) [1..<Suc k]) = take (k * l) xs"
proof (induction k)
  case 0
  show ?case by simp
next
  case (Suc k)
  have "take (k * l) xs @ take l (drop (k * l) xs) = take (k * l + l) xs"
    by (simp add: take_add)
  with Suc show ?case by (simp add: add.commute)
qed

lemma catalogPage_ok:
  "0 < l \<Longrightarrow> (q - 1) * l < length catalog \<Longrightarrow>
   page_ok (catalogPage catalog q l) \<and>
   page_data (catalogPage catalog q l) = take l (drop ((q - 1) * l) catalog)"
  by (simp add: catalogPage_def page_ok_def page_data_def)

lemma catalogPage_more:
  "more_pages (catalogPage catalog q l) = (q * l < length catalog)"
  by (simp add: catalogPage_def more_pages_def)

lemma pagedCatalog_all:
  assumes "catalog \<noteq> []"
  defines "k \<equiv> (length catalog + 499) div 500"
  shows "fetchAllMovies (pagedCatalog catalog) [] 1 [] =
           Some (Inr catalog, map (\<lambda>q. MoviesRequest q 500) [1..<Suc k])"
proof -
  have n: "0 < length catalog" using assms by simp
  have k1: "1 \<le> k" and kl: "(k - 1) * 500 < length catalog" and ku: "length catalog \<le> k * 500"
    using n unfolding k_def by linarith+
  have cont: "page_ok (catalogPage catalog q 500) \<and> more_pages (catalogPage catalog q 500)"
    if "1 \<le> q" "q < k" for q
  proof -
    from that kl have "q * 500 < length catalog" by simp
    moreover then have "(q - 1) * 500 < length catalog" by (simp add: diff_mult_distrib)
    ultimately show ?thesis
      using catalogPage_ok [of 500 q catalog] catalogPage_more [of catalog q 500] by simp
  qed
  have stop: "\<not> (page_ok (catalogPage catalog k 500) \<and> more_pages (catalogPage catalog k 500))"
    using catalogPage_more [of catalog k 500] ku by simp
  have pd: "page_data (catalogPage catalog q 500) = take 500 (drop ((q - 1) * 500) catalog)"
    if "1 \<le> q" "q \<le> k" for q
  proof -
    from that kl have "(q - 1) * 500 < length catalog"
      by (metis (no_types, lifting) diff_le_mono le_less_trans mult_le_mono1)
    then show ?thesis
      using catalogPage_ok [of 500 q catalog] by simp
  qed
  have "map (\<lambda>q. page_data (catalogPage catalog q 500)) [1..<Suc k]
        = map (\<lambda>q. take 500 (drop ((q - 1) * 500) catalog)) [1..<Suc k]"
  proof (rule map_cong [OF refl])
    fix q assume "q \<in> set [1..<Suc k]"
    then have "1 \<le> q" "q \<le> k" by auto
    then show "page_data (catalogPage catalog q 500) = take 500 (drop ((q - 1) * 500) catalog)"
      by (rule pd)
  qed
  then have "concat (map (\<lambda>q. page_data (catalogPage catalog q 500)) [1..<Suc k]) = take (k * 500) catalog"
    using concat_pages [of 500 catalog k] by (simp only: zero_less_numeral)
  also have "\<dots> = catalog" using ku by simp
  finally have all: "concat (map (\<lambda>q. page_data (catalogPage catalog q 500)) [1..<Suc k]) = catalog" .
  show ?thesis
    using loop_run [of 1 k "\<lambda>q. catalogPage catalog q 500" "pagedCatalog catalog" "[]" "[]"]
      cont stop pagedCatalog_def k1 all by simp
qed

text \<open>
  Claim C1, as amended. Let the movie endpoint answer page \<open>q\<close> with the envelope
  \<open>env q\<close>. If \<open>k\<close> is the first page, counted from 1, whose envelope ends pagination
  (\<^verbatim>\<open>success\<close> false, data empty or absent, \<^verbatim>\<open>hasNextPage\<close> false or no pagination
  object), the loop returns the data of the pages before \<open>k\<close> in page order, followed
  by the data of page \<open>k\<close> when that page is successful and not empty, and it has
  requested exactly the pages \<open>1, ..., k\<close> with limit 500. If no page ends
  pagination, the loop does not return. A catalogue that is not empty, served in pages
  of the requested size, is returned whole after one request for each of its pages;
  with 2568 movies these are the six requests for the pages 1 to 6.
\<close>

theorem aggregation_up_to_first_end:
  fixes env :: "nat \<Rightarrow> movie list APIResponse"
  shows
    "(1 \<le> k \<and> ends_pagination (env k) \<and> (\<forall>q. 1 \<le> q \<and> q < k \<longrightarrow> \<not> ends_pagination (env q)) \<longrightarrow>
        fetchAllMovies (\<lambda>page limit. Inr (env page)) [] 1 [] =
          Some (Inr (concat (map (\<lambda>q. the (data (env q))) [1..<k]) @ page_data (env k)),
                map (\<lambda>q. MoviesRequest q 500) [1..<Suc k]))
     \<and> ((\<forall>q\<ge>1. \<not> ends_pagination (env q)) \<longrightarrow>
          fetchAllMovies (\<lambda>page limit. Inr (env page)) [] 1 [] = None)
     \<and> (catalog \<noteq> [] \<longrightarrow>
          fetchAllMovies (pagedCatalog catalog) [] 1 [] =
            Some (Inr catalog,
                  map (\<lambda>q. MoviesRequest q 500) [1..<Suc ((length catalog + 499) div 500)]))
     \<and> (length catalog = 2568 \<longrightarrow>
          fetchAllMovies (pagedCatalog catalog) [] 1 [] =
            Some (Inr catalog, map (\<lambda>q. MoviesRequest q 500) [1, 2, 3, 4, 5, 6]))"
proof (intro conjI impI)
  assume h: "1 \<le> k \<and> ends_pagination (env k) \<and> (\<forall>q. 1 \<le> q \<and> q < k \<longrightarrow> \<not> ends_pagination (env q))"
  then have cont: "page_ok (env q) \<and> more_pages (env q)" if "1 \<le> q" "q < k" for q
    using that by (simp add: ends_pagination_iff)
  have pages: "map (\<lambda>q. page_data (env q)) [1..<k] = map (\<lambda>q. the (data (env q))) [1..<k]"
  proof (rule map_cong [OF refl])
    fix q assume "q \<in> set [1..<k]"
    then have "1 \<le> q" "q < k" by auto
    from cont [OF this] show "page_data (env q) = the (data (env q))"
      by (simp add: page_data_def)
  qed
  from h have "[1..<Suc k] = [1..<k] @ [k]" by simp
  then have split: "concat (map (\<lambda>q. page_data (env q)) [1..<Suc k]) =
      concat (map (\<lambda>q. page_data (env q)) [1..<k]) @ page_data (env k)"
    by simp
  have "fetchAllMovies (\<lambda>page limit. Inr (env page)) [] 1 [] =
      Some (Inr ([] @ concat (map (\<lambda>q. page_data (env q)) [1..<Suc k])),
            [] @ map (\<lambda>q. MoviesRequest q 500) [1..<Suc k])"
    using h cont by (intro loop_run) (simp_all add: ends_pagination_iff)
  then show "fetchAllMovies (\<lambda>page limit. Inr (env page)) [] 1 [] =
          Some (Inr (concat (map (\<lambda>q. the (data (env q))) [1..<k]) @ page_data (env k)),
                map (\<lambda>q. MoviesRequest q 500) [1..<Suc k])"
    by (simp only: split pages append_Nil)
next
  assume "\<forall>q\<ge>1. \<not> ends_pagination (env q)"
  then show "fetchAllMovies (\<lambda>page limit. Inr (env page)) [] 1 [] = None"
    by (intro loop_forever) (simp add: ends_pagination_iff)
next
  assume "catalog \<noteq> []"
  then show "fetchAllMovies (pagedCatalog catalog) [] 1 [] =
            Some (Inr catalog,
                  map (\<lambda>q. MoviesRequest q 500) [1..<Suc ((length catalog + 499) div 500)])"
    by (rule pagedCatalog_all)
next
  assume len: "length catalog = 2568"
  then have "catalog \<noteq> []" by auto
  from pagedCatalog_all [OF this] len
  have "fetchAllMovies (pagedCatalog catalog) [] 1 [] =
      Some (Inr catalog, map (\<lambda>q. MoviesRequest q 500) [1..<Suc 6])"
    by simp
  moreover have "[1..<Suc 6] = [1, 2, 3, 4, 5, 6::nat]"
    by (simp add: upt_rec)
  ultimately show "fetchAllMovies (pagedCatalog catalog) [] 1 [] =
            Some (Inr catalog, map (\<lambda>q. MoviesRequest q 500) [1, 2, 3, 4, 5, 6])"
    by (simp only:)
qed

theorem aggregation_up_to_first_end_witness:
  "ends_pagination (twoPages 2) \<and> \<not> ends_pagination (twoPages 1)
   \<and> fetchAllMovies (\<lambda>page limit. Inr (twoPages page)) [] 1 [] =
       Some (Inr [movieA, movieB], [MoviesRequest 1 500, MoviesRequest 2 500])
   \<and> \<not> ends_pagination endlessPage
   \<and> fetchAllMovies (\<lambda>page limit. Inr endlessPage) [] 1 [] = None
   \<and> [movieA, movieB] \<noteq> []
   \<and> fetchAllMovies (pagedCatalog [movieA, movieB]) [] 1 [] =
       Some (Inr [movieA, movieB], [MoviesRequest 1 500])
   \<and> length (sampleCatalog 2568) = 2568
   \<and> fetchAllMovies (pagedCatalog (sampleCatalog 2568)) [] 1 [] =
       Some (Inr (sampleCatalog 2568),
             [MoviesRequest 1 500, MoviesRequest 2 500, MoviesRequest 3 500,
              MoviesRequest 4 500, MoviesRequest 5 500, MoviesRequest 6 500])"
proof -
  have e2: "ends_pagination (twoPages 2)" and e1: "\<not> ends_pagination (twoPages 1)"
    by (simp_all add: ends_pagination_def twoPages_def)
  have first: "\<forall>q. 1 \<le> q \<and> q < 2 \<longrightarrow> \<not> ends_pagination (twoPages q)"
  proof (intro allI impI)
    fix q :: nat assume "1 \<le> q \<and> q < 2"
    then have "q = 1" by simp
    with e1 show "\<not> ends_pagination (twoPages q)" by simp
  qed
  have u: "[1..<2] = [1::nat]" "[1..<Suc 2] = [1, 2::nat]"
    by (simp_all add: upt_rec)
  have d1: "the (data (twoPages 1)) = [movieA]" and d2: "page_data (twoPages 2) = [movieB]"
    by (simp_all add: page_data_def page_ok_def twoPages_def)
  have "fetchAllMovies (\<lambda>page limit. Inr (twoPages page)) [] 1 [] =
          Some (Inr (concat (map (\<lambda>q. the (data (twoPages q))) [1..<2]) @ page_data (twoPages 2)),
                map (\<lambda>q. MoviesRequest q 500) [1..<Suc 2])"
    using aggregation_up_to_first_end [of 2 twoPages "[]", THEN conjunct1] e2 first
    by (simp only: simp_thms one_le_numeral)
  then have two: "fetchAllMovies (\<lambda>page limit. Inr (twoPages page)) [] 1 [] =
       Some (Inr [movieA, movieB], [MoviesRequest 1 500, MoviesRequest 2 500])"
    by (simp only: u d1 d2 list.map concat.simps append_Nil append_Cons)
  have ne: "\<not> ends_pagination endlessPage"
    by (simp add: ends_pagination_def endlessPage_def)
  have forever: "fetchAllMovies (\<lambda>page limit. Inr endlessPage) [] 1 [] = None"
    using aggregation_up_to_first_end [of 1 "\<lambda>q. endlessPage" "[]", THEN conjunct2, THEN conjunct1] ne
    by (simp only: simp_thms)
  have len: "length (sampleCatalog 2568) = 2568"
    by (simp add: sampleCatalog_def)
  have cat: "fetchAllMovies (pagedCatalog (sampleCatalog 2568)) [] 1 [] =
       Some (Inr (sampleCatalog 2568),
             [MoviesRequest 1 500, MoviesRequest 2 500, MoviesRequest 3 500,
              MoviesRequest 4 500, MoviesRequest 5 500, MoviesRequest 6 500])"
    using aggregation_up_to_first_end [of 1 "\<lambda>q. endlessPage" "sampleCatalog 2568",
        THEN conjunct2, THEN conjunct2, THEN conjunct2] len
    by (simp only: simp_thms list.map)
  have small: "[movieA, movieB] \<noteq> []" by simp
  have "[1..<Suc ((length [movieA, movieB] + 499) div 500)] = [1::nat]"
    by (simp add: upt_rec)
  with aggregation_up_to_first_end [of 1 "\<lambda>q. endlessPage" "[movieA, movieB]",
        THEN conjunct2, THEN conjunct2, THEN conjunct1] small
  have one: "fetchAllMovies (pagedCatalog [movieA, movieB]) [] 1 [] =
       Some (Inr [movieA, movieB], [MoviesRequest 1 500])"
    by (simp only: simp_thms list.map)
  from e2 e1 two ne forever small one len cat show ?thesis by (simp only: simp_thms)
qed

text \<open>
  The loop does not return for every endpoint: on a backend whose every page holds a
  movie and announces a next page it runs forever.
\<close>

theorem aggregation_endless_counterexample:
  "fetchAllMovies endlessBackend [] 1 [] = None"
proof (rule loop_forever)
  fix q :: nat
  show "\<exists>r. endlessBackend q 500 = Inr r \<and> page_ok r \<and> more_pages r"
    by (simp add: endlessBackend_def endlessPage_def page_ok_def more_pages_def)
qed

text \<open>
  Claim C2. If the envelope of the first request has \<^verbatim>\<open>success\<close> false, the loop
  returns the empty sequence and the request for page 1 is the only one it has issued.
\<close>

theorem first_page_unsuccessful:
  "fetchMovies 1 500 = Inr moviesData \<Longrightarrow> \<not> success moviesData \<Longrightarrow>
   fetchAllMovies fetchMovies [] 1 [] = Some (Inr [], [MoviesRequest 1 500])"
  using loop_stop [of fetchMovies 1 moviesData "[]" "[]"]
  by (simp add: page_ok_def page_data_def)

theorem first_page_unsuccessful_witness:
  "(\<lambda>page limit. Inr failedEnvelope) 1 500 = (Inr failedEnvelope :: fault + movie list APIResponse)
   \<and> \<not> success (failedEnvelope :: movie list APIResponse)
   \<and> fetchAllMovies (\<lambda>page limit. Inr failedEnvelope) [] 1 [] = Some (Inr [], [MoviesRequest 1 500])"
  using first_page_unsuccessful [of "\<lambda>page limit. Inr failedEnvelope" failedEnvelope]
  by (simp add: failedEnvelope_def)

text \<open>
  Claim C9. An envelope with \<^verbatim>\<open>success\<close> true, data that is not empty and no
  pagination object: the loop appends the data and ends, and the request for this page
  is its last.
\<close>

theorem missing_pagination_ends_loop:
  "fetchMovies page 500 = Inr moviesData \<Longrightarrow> success moviesData \<Longrightarrow> data moviesData = Some d \<Longrightarrow>
   d \<noteq> [] \<Longrightarrow> pagination moviesData = None \<Longrightarrow>
   fetchAllMovies fetchMovies allMovies page requests =
     Some (Inr (allMovies @ d), requests @ [MoviesRequest page 500])"
  using loop_stop [of fetchMovies page moviesData allMovies requests]
  by (simp add: page_ok_def page_data_def more_pages_def)

theorem missing_pagination_ends_loop_witness:
  "success unpagedPage \<and> data unpagedPage = Some [movieA, movieB] \<and> [movieA, movieB] \<noteq> []
   \<and> pagination unpagedPage = None
   \<and> fetchAllMovies (\<lambda>page limit. Inr unpagedPage) [] 1 [] =
       Some (Inr [movieA, movieB], [MoviesRequest 1 500])"
  using missing_pagination_ends_loop [of "\<lambda>page limit. Inr unpagedPage" 1 unpagedPage "[movieA, movieB]" "[]" "[]"]
  by (simp add: unpagedPage_def)

section \<open>The fetch client\<close>

lemma show_nat_404: "show_nat 404 = ''404''"
  by (simp add: digit_def)

lemma show_int_small: "show_int 1 = ''1''" "show_int 2 = ''2''" "show_int 20 = ''20''"
  by (simp_all add: show_int_def digit_def)

lemma encode_sample: "encodeURIComponent ''tom & jerry'' = ''tom%20%26%20jerry''"
  by (simp add: encodeURIComponent_def uri_unreserved_def percent_encode_def hex_digit_def)

text \<open>
  Claim C3. For every query, page and limit: when the response to the search request
  has a status outside 200..299, \<open>searchMovies\<close> returns the local result
  \<^verbatim>\<open>{success: false, error: "Search API returned <status>"}\<close> instead of throwing,
  and the search request is the only request it has made.
\<close>

theorem searchMovies_http_error:
  "fetch (search_url apiBase query page limit) = Inr res \<Longrightarrow>
   res_status res < 200 \<or> 299 < res_status res \<Longrightarrow>
   searchMovies fetch apiBase query page limit =
     (\<lparr>success = False, data = None,
       error = Some (''Search API returned '' @ show_nat (res_status res)),
       pagination = None\<rparr>,
      [search_url apiBase query page limit])"
  by (simp add: searchMovies_def ok_def search_failure_def Let_def not_le)

theorem searchMovies_http_error_witness:
  "notFound (search_url ''http://localhost:8080/api'' ''tom & jerry'' None None) =
     Inr \<lparr>res_status = 404, res_json = Inl (Error ''Unexpected token < in JSON'')\<rparr>
   \<and> 299 < (404 :: nat)
   \<and> searchMovies notFound ''http://localhost:8080/api'' ''tom & jerry'' None None =
       (\<lparr>success = False, data = None, error = Some ''Search API returned 404'',
         pagination = None\<rparr>,
        [''http://localhost:8080/api/search?q=tom%20%26%20jerry&page=1&limit=20''])"
proof -
  have url: "search_url ''http://localhost:8080/api'' ''tom & jerry'' None None =
      ''http://localhost:8080/api/search?q=tom%20%26%20jerry&page=1&limit=20''"
    by (simp add: search_url_def encode_sample default_arg_def show_int_small)
  have resp: "notFound (search_url ''http://localhost:8080/api'' ''tom & jerry'' None None) =
     Inr \<lparr>res_status = 404, res_json = Inl (Error ''Unexpected token < in JSON'')\<rparr>"
    by (simp add: notFound_def)
  from searchMovies_http_error [of notFound "''http://localhost:8080/api''" "''tom & jerry''" None None
      "\<lparr>res_status = 404, res_json = Inl (Error ''Unexpected token < in JSON'')\<rparr>"] resp
  have "searchMovies notFound ''http://localhost:8080/api'' ''tom & jerry'' None None =
       (\<lparr>success = False, data = None, error = Some (''Search API returned '' @ show_nat 404),
         pagination = None\<rparr>,
        [search_url ''http://localhost:8080/api'' ''tom & jerry'' None None])"
    by simp
  then show ?thesis
    unfolding url show_nat_404 using resp unfolding url by simp
qed


lemma single_get_unfold:
  "single_get fetch url =
     (case fetch url of
        Inl e \<Rightarrow> (Inl e, [url])
      | Inr res \<Rightarrow>
          (case res_json res of
             Inl e \<Rightarrow> (Inl e, [url])
           | Inr json \<Rightarrow> (Inr json, [url])))"
  by (simp add: single_get_def split: sum.split)

text \<open>
  Claim C8. Each of the eight operations other than \<open>searchMovies\<close> is one GET of its
  URL with nothing handled: it requests exactly that URL, a fault of the request or of
  the deserialisation reaches the caller, and otherwise the caller receives the
  deserialised envelope unchanged, whatever the status of the response.
\<close>

theorem unguarded_operations_pass_through:
  "getHomePageData fetch apiBase page = single_get fetch (home_url apiBase page)
   \<and> getMovies fetch apiBase page limit = single_get fetch (movies_url apiBase page limit)
   \<and> getTrendingMovies fetch apiBase = single_get fetch (trending_url apiBase)
   \<and> getMovieBySlug fetch apiBase slug = single_get fetch (movie_url apiBase slug)
   \<and> getCategories fetch apiBase = single_get fetch (categories_url apiBase)
   \<and> getCategoryBySlug fetch apiBase slug page limit =
       single_get fetch (category_url apiBase slug page limit)
   \<and> getStaticPage fetch apiBase slug = single_get fetch (static_page_url apiBase slug)
   \<and> getPublicSettings fetch apiBase = single_get fetch (settings_url apiBase)
   \<and> snd (single_get fetch url) = [url]
   \<and> (fetch url = Inl e \<longrightarrow> fst (single_get fetch url) = Inl e)
   \<and> (fetch url = Inr res \<and> res_json res = Inl e \<longrightarrow> fst (single_get fetch url) = Inl e)
   \<and> (fetch url = Inr res \<and> res_json res = Inr json \<longrightarrow> fst (single_get fetch url) = Inr json)"
proof (intro conjI impI)
  show "getHomePageData fetch apiBase page = single_get fetch (home_url apiBase page)"
    by (simp only: getHomePageData_def single_get_unfold Let_def)
  show "getMovies fetch apiBase page limit = single_get fetch (movies_url apiBase page limit)"
    by (simp only: getMovies_def single_get_unfold Let_def)
  show "getTrendingMovies fetch apiBase = single_get fetch (trending_url apiBase)"
    by (simp only: getTrendingMovies_def single_get_unfold Let_def)
  show "getMovieBySlug fetch apiBase slug = single_get fetch (movie_url apiBase slug)"
    by (simp only: getMovieBySlug_def single_get_unfold Let_def)
  show "getCategories fetch apiBase = single_get fetch (categories_url apiBase)"
    by (simp only: getCategories_def single_get_unfold Let_def)
  show "getCategoryBySlug fetch apiBase slug page limit =
       single_get fetch (category_url apiBase slug page limit)"
    by (simp only: getCategoryBySlug_def single_get_unfold Let_def)
  show "getStaticPage fetch apiBase slug = single_get fetch (static_page_url apiBase slug)"
    by (simp only: getStaticPage_def single_get_unfold Let_def)
  show "getPublicSettings fetch apiBase = single_get fetch (settings_url apiBase)"
    by (simp only: getPublicSettings_def single_get_unfold Let_def)
  show "snd (single_get fetch url) = [url]"
    by (simp add: single_get_def)
  show "fst (single_get fetch url) = Inl e" if "fetch url = Inl e"
    using that by (simp add: single_get_def)
  show "fst (single_get fetch url) = Inl e" if "fetch url = Inr res \<and> res_json res = Inl e"
    using that by (simp add: single_get_def)
  show "fst (single_get fetch url) = Inr json" if "fetch url = Inr res \<and> res_json res = Inr json"
    using that by (simp add: single_get_def)
qed


theorem unguarded_operations_pass_through_witness:
  "offline (movies_url ''http://localhost:8080/api'' None None) = Inl (Error ''fetch failed'')
   \<and> getMovies offline ''http://localhost:8080/api'' None None =
       (Inl (Error ''fetch failed''), [''http://localhost:8080/api/movies?page=1&limit=20''])
   \<and> notFound (categories_url ''http://localhost:8080/api'') =
       Inr \<lparr>res_status = 404, res_json = Inl (Error ''Unexpected token < in JSON'')\<rparr>
   \<and> getCategories notFound ''http://localhost:8080/api'' =
       (Inl (Error ''Unexpected token < in JSON''), [''http://localhost:8080/api/categories''])
   \<and> serverError (static_page_url ''http://localhost:8080/api'' ''dmca'') =
       Inr \<lparr>res_status = 500, res_json = Inr failedEnvelope\<rparr>
   \<and> getStaticPage serverError ''http://localhost:8080/api'' ''dmca'' =
       (Inr failedEnvelope, [''http://localhost:8080/api/static-pages/dmca''])"
proof -
  let ?base = "''http://localhost:8080/api''"
  let ?r404 = "\<lparr>res_status = 404, res_json = Inl (Error ''Unexpected token < in JSON'') :: fault + unit APIResponse\<rparr>"
  let ?r500 = "\<lparr>res_status = 500, res_json = Inr (failedEnvelope :: unit APIResponse)\<rparr>"
  have u1: "movies_url ?base None None = ''http://localhost:8080/api/movies?page=1&limit=20''"
    by (simp add: movies_url_def default_arg_def show_int_small)
  have u2: "categories_url ?base = ''http://localhost:8080/api/categories''"
    by (simp add: categories_url_def)
  have u3: "static_page_url ?base ''dmca'' = ''http://localhost:8080/api/static-pages/dmca''"
    by (simp add: static_page_url_def)
  have f1: "offline (movies_url ?base None None) = Inl (Error ''fetch failed'')"
    by (simp add: offline_def)
  have f2: "notFound (categories_url ?base) = Inr ?r404"
    by (simp add: notFound_def)
  have f3: "serverError (static_page_url ?base ''dmca'') = Inr ?r500"
    by (simp add: serverError_def)
  note t1 = unguarded_operations_pass_through
    [of offline ?base None None "''dmca''" "movies_url ?base None None" "Error ''fetch failed''" ?r404 failedEnvelope]
  note t2 = unguarded_operations_pass_through
    [of notFound ?base None None "''dmca''" "categories_url ?base" "Error ''Unexpected token < in JSON''" ?r404 failedEnvelope]
  note t3 = unguarded_operations_pass_through
    [of serverError ?base None None "''dmca''" "static_page_url ?base ''dmca''" "Error ''fetch failed''" ?r500 failedEnvelope]
  have g1: "getMovies offline ?base None None = (Inl (Error ''fetch failed''), [movies_url ?base None None])"
    using t1 f1 by (simp add: prod_eq_iff)
  have g2: "getCategories notFound ?base =
      (Inl (Error ''Unexpected token < in JSON''), [categories_url ?base])"
    using t2 f2 by (simp add: prod_eq_iff)
  have g3: "getStaticPage serverError ?base ''dmca'' = (Inr failedEnvelope, [static_page_url ?base ''dmca''])"
    using t3 f3 by (simp add: prod_eq_iff)
  from f1 f2 f3 g1 g2 g3 show ?thesis
    unfolding u1 u2 u3 by (simp only: simp_thms)
qed

section \<open>The document\<close>

lemma foldl_append_concat: "foldl (\<lambda>acc x. acc @ f x) acc xs = acc @ concat (map f xs)"
  by (induction xs arbitrary: acc) simp_all

lemma build_sitemap_Some:
  "build_sitemap baseUrl currentDate (Some cats) ms = Inr (sitemap_document baseUrl currentDate cats ms)"
  by (simp add: build_sitemap_def sitemap_document_def sitemap_entries_def foldl_append_concat)

lemma build_sitemap_None:
  "build_sitemap baseUrl currentDate None ms =
     Inl (Error ''Cannot read properties of undefined (reading 'forEach')'')"
  by (simp add: build_sitemap_def)

lemma movie_entry_cases:
  "movie_entry baseUrl currentDate m =
     movie_open baseUrl currentDate m
     @ (if has_thumbnail m
        then image_block (escapeXml (the (movie_thumbnail m))) (escapeXml (movie_title m))
        else [])
     @ movie_close"
  by (cases "movie_thumbnail m") (simp_all add: movie_entry_def has_thumbnail_def)

subsection \<open>Counting tags\<close>

lemma occurrences_skip:
  "c \<noteq> CHR ''<'' \<Longrightarrow> occurrences (CHR ''<'' # r) (c # cs) = occurrences (CHR ''<'' # r) cs"
  by simp

lemma occurrences_tag_free:
  "tag_free v \<Longrightarrow> occurrences (CHR ''<'' # r) (v @ t) = occurrences (CHR ''<'' # r) t"
  by (induction v) (simp_all add: tag_free_def)

lemma tag_free_escapeXml: "tag_free (escapeXml str)"
  using escapeXml_no_markup [of str] by (auto simp: tag_free_def)

lemma digit_tag_free: "d < 10 \<Longrightarrow> CHR ''<'' \<noteq> digit d"
proof -
  assume "d < 10"
  then have "d \<in> {0, 1, 2, 3, 4, 5, 6, 7, 8, 9}" by auto
  then show ?thesis by (auto simp: digit_def)
qed

lemma tag_free_show_nat: "tag_free (show_nat n)"
proof (induction n rule: show_nat.induct)
  case (1 n)
  show ?case
  proof (cases "n < 10")
    case True
    then show ?thesis by (subst show_nat.simps) (simp add: tag_free_def digit_tag_free)
  next
    case False
    with 1 have "tag_free (show_nat (n div 10))" by simp
    with False show ?thesis
      by (subst show_nat.simps) (simp add: tag_free_def digit_tag_free)
  qed
qed

lemma tag_free_show_int: "tag_free (show_int i)"
  using tag_free_show_nat by (simp add: show_int_def tag_free_def)


subsection \<open>Entries\<close>

lemma url_in_root:
  "tag_free baseUrl \<Longrightarrow> tag_free currentDate \<Longrightarrow>
   occurrences ''<url>'' (root_entry baseUrl currentDate @ t) = 1 + occurrences ''<url>'' t"
  by (simp add: root_entry_def occurrences_tag_free)

lemma url_in_static:
  "tag_free baseUrl \<Longrightarrow> tag_free currentDate \<Longrightarrow> tag_free (path p) \<Longrightarrow>
   tag_free (changefreq p) \<Longrightarrow> tag_free (priority p) \<Longrightarrow>
   occurrences ''<url>'' (static_entry baseUrl currentDate p @ t) = 1 + occurrences ''<url>'' t"
  by (simp add: static_entry_def occurrences_tag_free)

lemma url_in_category:
  "tag_free baseUrl \<Longrightarrow> tag_free currentDate \<Longrightarrow> tag_free (cat_slug c) \<Longrightarrow>
   occurrences ''<url>'' (category_entry baseUrl currentDate c @ t) = 1 + occurrences ''<url>'' t"
  by (simp add: category_entry_def occurrences_tag_free tag_free_show_int)

lemma url_in_movie:
  "tag_free baseUrl \<Longrightarrow> tag_free currentDate \<Longrightarrow> tag_free (movie_slug m) \<Longrightarrow>
   occurrences ''<url>'' (movie_entry baseUrl currentDate m @ t) = 1 + occurrences ''<url>'' t"
  by (simp add: movie_entry_cases movie_open_def image_block_def movie_close_def
      occurrences_tag_free tag_free_escapeXml)


lemma image_in_root:
  "tag_free baseUrl \<Longrightarrow> tag_free currentDate \<Longrightarrow>
   occurrences ''<image:image>'' (root_entry baseUrl currentDate @ t) =
     occurrences ''<image:image>'' t"
  by (simp add: root_entry_def occurrences_tag_free)

lemma image_in_static:
  "tag_free baseUrl \<Longrightarrow> tag_free currentDate \<Longrightarrow> tag_free (path p) \<Longrightarrow>
   tag_free (changefreq p) \<Longrightarrow> tag_free (priority p) \<Longrightarrow>
   occurrences ''<image:image>'' (static_entry baseUrl currentDate p @ t) =
     occurrences ''<image:image>'' t"
  by (simp add: static_entry_def occurrences_tag_free)

lemma image_in_category:
  "tag_free baseUrl \<Longrightarrow> tag_free currentDate \<Longrightarrow> tag_free (cat_slug c) \<Longrightarrow>
   occurrences ''<image:image>'' (category_entry baseUrl currentDate c @ t) =
     occurrences ''<image:image>'' t"
  by (simp add: category_entry_def occurrences_tag_free tag_free_show_int)

lemma image_in_movie:
  "tag_free baseUrl \<Longrightarrow> tag_free currentDate \<Longrightarrow> tag_free (movie_slug m) \<Longrightarrow>
   occurrences ''<image:image>'' (movie_entry baseUrl currentDate m @ t) =
     (if has_thumbnail m then 1 else 0) + occurrences ''<image:image>'' t"
  by (simp add: movie_entry_cases movie_open_def image_block_def movie_close_def
      occurrences_tag_free tag_free_escapeXml)

lemma occurrences_concat_map:
  assumes "\<And>x t. x \<in> set xs \<Longrightarrow> occurrences pat (f x @ t) = n x + occurrences pat t"
  shows "occurrences pat (concat (map f xs) @ t) = sum_list (map n xs) + occurrences pat t"
  using assms by (induction xs) simp_all

lemma staticPages_tag_free:
  "p \<in> set staticPages \<Longrightarrow> tag_free (path p) \<and> tag_free (changefreq p) \<and> tag_free (priority p)"
  by (auto simp: staticPages_def tag_free_def)

lemma length_staticPages: "length staticPages = 6"
  by (simp add: staticPages_def)

lemma sum_list_const: "sum_list (map (\<lambda>x. c) xs) = c * length xs" for c :: nat
  by (induction xs) simp_all

lemma sum_list_indicator:
  "sum_list (map (\<lambda>x. if P x then 1 else 0) xs) = length (filter P xs)"
  by (induction xs) simp_all

lemma url_in_document:
  assumes "tag_free_inputs baseUrl currentDate cats ms"
  shows "occurrences ''<url>'' (sitemap_document baseUrl currentDate cats ms) =
           1 + 6 + length cats + length ms"
proof -
  from assms have b: "tag_free baseUrl" and d: "tag_free currentDate"
    and cs: "\<And>c. c \<in> set cats \<Longrightarrow> tag_free (cat_slug c)"
    and mv: "\<And>m. m \<in> set ms \<Longrightarrow> tag_free (movie_slug m)"
    by (simp_all add: tag_free_inputs_def list_all_iff)
  have foot: "occurrences ''<url>'' ''</urlset>'' = 0" by simp
  have m: "occurrences ''<url>'' (concat (map (movie_entry baseUrl currentDate) ms) @ ''</urlset>'')
      = length ms"
    using occurrences_concat_map [of ms "''<url>''" "movie_entry baseUrl currentDate" "\<lambda>_. 1" "''</urlset>''"]
      url_in_movie [OF b d] mv foot by (simp add: sum_list_const)
  have c: "occurrences ''<url>'' (concat (map (category_entry baseUrl currentDate) cats) @ t)
      = length cats + occurrences ''<url>'' t" for t
    using occurrences_concat_map [of cats "''<url>''" "category_entry baseUrl currentDate" "\<lambda>_. 1" t]
      url_in_category [OF b d] cs by (simp add: sum_list_const)
  have s: "occurrences ''<url>'' (concat (map (static_entry baseUrl currentDate) staticPages) @ t)
      = 6 + occurrences ''<url>'' t" for t
    using occurrences_concat_map [of staticPages "''<url>''" "static_entry baseUrl currentDate" "\<lambda>_. 1" t]
      url_in_static [OF b d] staticPages_tag_free by (simp add: sum_list_const length_staticPages)
  have h: "occurrences ''<url>'' (xml_header @ t) = occurrences ''<url>'' t" for t
    by (simp add: xml_header_def)
  show ?thesis
    unfolding sitemap_document_def sitemap_entries_def
    by (simp only: concat_append concat.simps append_Nil2 append_assoc h url_in_root [OF b d] s c m)
qed

lemma image_in_document:
  assumes "tag_free_inputs baseUrl currentDate cats ms"
  shows "occurrences ''<image:image>'' (sitemap_document baseUrl currentDate cats ms) =
           length (filter has_thumbnail ms)"
proof -
  from assms have b: "tag_free baseUrl" and d: "tag_free currentDate"
    and cs: "\<And>c. c \<in> set cats \<Longrightarrow> tag_free (cat_slug c)"
    and mv: "\<And>m. m \<in> set ms \<Longrightarrow> tag_free (movie_slug m)"
    by (simp_all add: tag_free_inputs_def list_all_iff)
  have foot: "occurrences ''<image:image>'' ''</urlset>'' = 0" by simp
  have m: "occurrences ''<image:image>'' (concat (map (movie_entry baseUrl currentDate) ms) @ ''</urlset>'')
      = length (filter has_thumbnail ms)"
    using occurrences_concat_map [of ms "''<image:image>''" "movie_entry baseUrl currentDate"
        "\<lambda>m. if has_thumbnail m then 1 else 0" "''</urlset>''"]
      image_in_movie [OF b d] mv foot by (simp add: sum_list_indicator)
  have c: "occurrences ''<image:image>'' (concat (map (category_entry baseUrl currentDate) cats) @ t)
      = occurrences ''<image:image>'' t" for t
    using occurrences_concat_map [of cats "''<image:image>''" "category_entry baseUrl currentDate" "\<lambda>_. 0" t]
      image_in_category [OF b d] cs by simp
  have s: "occurrences ''<image:image>'' (concat (map (static_entry baseUrl currentDate) staticPages) @ t)
      = occurrences ''<image:image>'' t" for t
    using occurrences_concat_map [of staticPages "''<image:image>''" "static_entry baseUrl currentDate" "\<lambda>_. 0" t]
      image_in_static [OF b d] staticPages_tag_free by simp
  have h: "occurrences ''<image:image>'' (xml_header @ t) = occurrences ''<image:image>'' t" for t
    by (simp add: xml_header_def)
  show ?thesis
    unfolding sitemap_document_def sitemap_entries_def
    by (simp only: concat_append concat.simps append_Nil2 append_assoc h image_in_root [OF b d] s c m)
qed

section \<open>fetchSitemapData and GET\<close>



lemma fetchSitemapData_categories:
  "fetchAllMovies (listMovies api) [] 1 [] = Some (Inr ms, rq) \<Longrightarrow> listCategories api = Inr c \<Longrightarrow>
   fetchSitemapData api =
     Some ((ms, if success c then data c else Some []), rq @ [CategoriesRequest])"
  by (simp add: fetchSitemapData_def)


lemma GET_document:
  "fetchSitemapData api = Some ((ms, Some cats), rq) \<Longrightarrow>
   GET api PUBLIC_SITE_URL now =
     Some (Inr (xml_response
       (sitemap_document (baseUrl_of PUBLIC_SITE_URL) (currentDate_of now) cats ms)))"
  by (simp add: GET_def build_sitemap_Some)

lemma GET_throws:
  "fetchSitemapData api = Some ((ms, None), rq) \<Longrightarrow>
   GET api PUBLIC_SITE_URL now =
     Some (Inl (Error ''Cannot read properties of undefined (reading 'forEach')''))"
  by (simp add: GET_def build_sitemap_None)


lemma twoPages_run:
  "fetchAllMovies (\<lambda>page limit. Inr (twoPages page)) [] 1 [] =
     Some (Inr [movieA, movieB], [MoviesRequest 1 500, MoviesRequest 2 500])"
proof -
  have 1: "page_ok (twoPages 1)" "more_pages (twoPages 1)" "page_data (twoPages 1) = [movieA]"
    by (simp_all add: twoPages_def page_ok_def more_pages_def page_data_def)
  have 2: "\<not> (page_ok (twoPages (Suc 1)) \<and> more_pages (twoPages (Suc 1)))"
    "page_data (twoPages (Suc 1)) = [movieB]"
    by (simp_all add: twoPages_def page_ok_def more_pages_def page_data_def)
  have "fetchAllMovies (\<lambda>page limit. Inr (twoPages page)) [] 1 [] =
      fetchAllMovies (\<lambda>page limit. Inr (twoPages page)) ([] @ page_data (twoPages 1)) (Suc 1)
        ([] @ [MoviesRequest 1 500])"
    using 1 by (intro loop_continue) simp_all
  also have "\<dots> = Some (Inr (([] @ page_data (twoPages 1)) @ page_data (twoPages (Suc 1))),
        ([] @ [MoviesRequest 1 500]) @ [MoviesRequest (Suc 1) 500])"
    using 2 by (intro loop_stop) simp_all
  finally show ?thesis using 1 2 by simp
qed

lemma base_default: "baseUrl_of None = ''https://filmyfly.work''"
  by (simp add: baseUrl_of_def siteUrl_def strip_trailing_slash_def)

lemma date_sample: "currentDate_of ''2026-11-03T06:11:00.000Z'' = ''2026-11-03''"
  by (simp add: currentDate_of_def)


lemma loc_in_root:
  "sublist (''<loc>'' @ baseUrl @ ''/</loc>'') (root_entry baseUrl currentDate)"
proof -
  have "root_entry baseUrl currentDate =
      ''  <url>\<newline>    '' @ (''<loc>'' @ baseUrl @ ''/</loc>'') @
      (''\<newline>    <lastmod>'' @ currentDate @ ''</lastmod>\<newline>'' @
       ''    <changefreq>daily</changefreq>\<newline>'' @
       ''    <priority>1.0</priority>\<newline>'' @
       ''  </url>\<newline>'')"
    by (simp add: root_entry_def)
  then show ?thesis by (simp only: sublist_appendI)
qed

lemma loc_in_category:
  "sublist (''<loc>'' @ baseUrl @ ''/category/'' @ show_int (cat_id c) @ ''/'' @ cat_slug c @ ''</loc>'')
     (category_entry baseUrl currentDate c)"
proof -
  have "category_entry baseUrl currentDate c =
      ''  <url>\<newline>    '' @
      (''<loc>'' @ baseUrl @ ''/category/'' @ show_int (cat_id c) @ ''/'' @ cat_slug c @ ''</loc>'') @
      (''\<newline>    <lastmod>'' @ currentDate @ ''</lastmod>\<newline>'' @
       ''    <changefreq>weekly</changefreq>\<newline>'' @
       ''    <priority>0.9</priority>\<newline>'' @
       ''  </url>\<newline>'')"
    by (simp add: category_entry_def)
  then show ?thesis by (simp only: sublist_appendI)
qed

lemma loc_in_movie:
  "sublist (''<loc>'' @ baseUrl @ ''/'' @ movie_slug m @ ''</loc>'') (movie_entry baseUrl currentDate m)"
proof -
  have "movie_entry baseUrl currentDate m =
      ''  <url>\<newline>    '' @
      (''<loc>'' @ baseUrl @ ''/'' @ movie_slug m @ ''</loc>'') @
      (''\<newline>    <lastmod>'' @ currentDate @ ''</lastmod>\<newline>'' @
       ''    <changefreq>weekly</changefreq>\<newline>'' @
       ''    <priority>0.8</priority>'' @
       (if has_thumbnail m
        then image_block (escapeXml (the (movie_thumbnail m))) (escapeXml (movie_title m))
        else []) @ movie_close)"
    by (simp add: movie_entry_cases movie_open_def)
  then show ?thesis by (simp only: sublist_appendI)
qed

lemma length_sitemap_entries:
  "length (sitemap_entries baseUrl currentDate cats ms) = 1 + 6 + length cats + length ms"
  by (simp add: sitemap_entries_def length_staticPages)

lemma image_iff_thumbnail:
  assumes "tag_free baseUrl" "tag_free currentDate" "tag_free (movie_slug m)"
  shows "(0 < occurrences ''<image:image>'' (movie_entry baseUrl currentDate m)) = has_thumbnail m"
  using image_in_movie [OF assms, of "[]"] by simp

text \<open>
  The structure of the document. For every movie list and category list the response
  of \<open>GET\<close> is the header, one root entry, the six static entries, one entry for each
  category and one entry for each movie, in this order, and the closing tag; each
  entry holds its location, and the entry of a movie holds the image block exactly
  when the thumbnail is present and not empty. Counted in the text, for inputs that
  bring no \<^verbatim>\<open><\<close> of their own: the document has \<open>1 + 6 + #categories + #movies\<close>
  opening \<^verbatim>\<open><url>\<close> tags and as many \<^verbatim>\<open><image:image>\<close> tags as there are movies
  with a thumbnail.
\<close>

lemma document_structure:
  "(fetchSitemapData api = Some ((ms, Some cats), rq) \<longrightarrow>
      GET api PUBLIC_SITE_URL now =
        Some (Inr (xml_response
          (sitemap_document (baseUrl_of PUBLIC_SITE_URL) (currentDate_of now) cats ms))))
   \<and> build_sitemap baseUrl currentDate (Some cats) ms =
       Inr (xml_header @ concat (sitemap_entries baseUrl currentDate cats ms) @ ''</urlset>'')
   \<and> sitemap_entries baseUrl currentDate cats ms =
       root_entry baseUrl currentDate # map (static_entry baseUrl currentDate) staticPages
         @ map (category_entry baseUrl currentDate) cats @ map (movie_entry baseUrl currentDate) ms
   \<and> length staticPages = 6
   \<and> length (sitemap_entries baseUrl currentDate cats ms) = 1 + 6 + length cats + length ms
   \<and> sublist (''<loc>'' @ baseUrl @ ''/</loc>'') (root_entry baseUrl currentDate)
   \<and> sublist (''<loc>'' @ baseUrl @ ''/category/'' @ show_int (cat_id c) @ ''/'' @ cat_slug c
                 @ ''</loc>'') (category_entry baseUrl currentDate c)
   \<and> sublist (''<loc>'' @ baseUrl @ ''/'' @ movie_slug m @ ''</loc>'')
        (movie_entry baseUrl currentDate m)
   \<and> movie_entry baseUrl currentDate m =
       movie_open baseUrl currentDate m
       @ (if has_thumbnail m
          then image_block (escapeXml (the (movie_thumbnail m))) (escapeXml (movie_title m))
          else [])
       @ movie_close
   \<and> (tag_free_inputs baseUrl currentDate cats ms \<longrightarrow>
        occurrences ''<url>'' (sitemap_document baseUrl currentDate cats ms) =
          1 + 6 + length cats + length ms
        \<and> occurrences ''<image:image>'' (sitemap_document baseUrl currentDate cats ms) =
            length (filter has_thumbnail ms))
   \<and> (tag_free baseUrl \<and> tag_free currentDate \<and> tag_free (movie_slug m) \<longrightarrow>
        (0 < occurrences ''<image:image>'' (movie_entry baseUrl currentDate m)) = has_thumbnail m)"
proof (intro conjI impI)
  show "GET api PUBLIC_SITE_URL now =
        Some (Inr (xml_response
          (sitemap_document (baseUrl_of PUBLIC_SITE_URL) (currentDate_of now) cats ms)))"
    if "fetchSitemapData api = Some ((ms, Some cats), rq)"
    using that by (rule GET_document)
  show "build_sitemap baseUrl currentDate (Some cats) ms =
       Inr (xml_header @ concat (sitemap_entries baseUrl currentDate cats ms) @ ''</urlset>'')"
    by (simp only: build_sitemap_Some sitemap_document_def)
  show "sitemap_entries baseUrl currentDate cats ms =
       root_entry baseUrl currentDate # map (static_entry baseUrl currentDate) staticPages
         @ map (category_entry baseUrl currentDate) cats @ map (movie_entry baseUrl currentDate) ms"
    by (simp add: sitemap_entries_def)
  show "length staticPages = 6" by (rule length_staticPages)
  show "length (sitemap_entries baseUrl currentDate cats ms) = 1 + 6 + length cats + length ms"
    by (rule length_sitemap_entries)
  show "sublist (''<loc>'' @ baseUrl @ ''/</loc>'') (root_entry baseUrl currentDate)"
    by (rule loc_in_root)
  show "sublist (''<loc>'' @ baseUrl @ ''/category/'' @ show_int (cat_id c) @ ''/'' @ cat_slug c
                 @ ''</loc>'') (category_entry baseUrl currentDate c)"
    by (rule loc_in_category)
  show "sublist (''<loc>'' @ baseUrl @ ''/'' @ movie_slug m @ ''</loc>'')
        (movie_entry baseUrl currentDate m)"
    by (rule loc_in_movie)
  show "movie_entry baseUrl currentDate m =
       movie_open baseUrl currentDate m
       @ (if has_thumbnail m
          then image_block (escapeXml (the (movie_thumbnail m))) (escapeXml (movie_title m))
          else [])
       @ movie_close"
    by (rule movie_entry_cases)
  show "occurrences ''<url>'' (sitemap_document baseUrl currentDate cats ms) =
          1 + 6 + length cats + length ms"
    if "tag_free_inputs baseUrl currentDate cats ms"
    using that by (rule url_in_document)
  show "occurrences ''<image:image>'' (sitemap_document baseUrl currentDate cats ms) =
            length (filter has_thumbnail ms)"
    if "tag_free_inputs baseUrl currentDate cats ms"
    using that by (rule image_in_document)
  show "(0 < occurrences ''<image:image>'' (movie_entry baseUrl currentDate m)) = has_thumbnail m"
    if "tag_free baseUrl \<and> tag_free currentDate \<and> tag_free (movie_slug m)"
    using that by (simp add: image_iff_thumbnail)
qed

subsection \<open>The sample endpoints\<close>

lemma sampleApi_data:
  "fetchSitemapData sampleApi =
     Some (([movieA, movieB], Some [categoryA]),
           [MoviesRequest 1 500, MoviesRequest 2 500, CategoriesRequest])"
  using fetchSitemapData_categories [of sampleApi "[movieA, movieB]"
      "[MoviesRequest 1 500, MoviesRequest 2 500]" categoriesEnvelope] twoPages_run
  by (simp add: sampleApi_def categoriesEnvelope_def)



lemma ampersandApi_data:
  "fetchSitemapData ampersandApi =
     Some (([ampersandMovie], Some []), [MoviesRequest 1 500, CategoriesRequest])"
proof -
  let ?r = "\<lparr>success = True, data = Some [ampersandMovie], error = None, pagination = None\<rparr>"
  have "fetchAllMovies (listMovies ampersandApi) [] 1 [] =
      Some (Inr ([] @ page_data ?r), [] @ [MoviesRequest 1 500])"
    by (rule loop_stop) (simp_all add: ampersandApi_def more_pages_def)
  then have "fetchAllMovies (listMovies ampersandApi) [] 1 [] =
      Some (Inr [ampersandMovie], [MoviesRequest 1 500])"
    by (simp add: page_data_def page_ok_def)
  from fetchSitemapData_categories [OF this, of failedEnvelope] show ?thesis
    by (simp add: ampersandApi_def failedEnvelope_def)
qed

lemma sublist_in_document:
  assumes "m \<in> set ms" and "sublist pat (movie_entry baseUrl currentDate m)"
  shows "sublist pat (sitemap_document baseUrl currentDate cats ms)"
proof -
  from assms(1) obtain ms1 ms2 where ms: "ms = ms1 @ m # ms2"
    by (auto simp: in_set_conv_decomp)
  from assms(2) obtain ps ss where e: "movie_entry baseUrl currentDate m = ps @ pat @ ss"
    by (auto simp: sublist_def)
  have "sitemap_document baseUrl currentDate cats ms =
      (xml_header @ root_entry baseUrl currentDate
         @ concat (map (static_entry baseUrl currentDate) staticPages)
         @ concat (map (category_entry baseUrl currentDate) cats)
         @ concat (map (movie_entry baseUrl currentDate) ms1) @ ps)
      @ pat
      @ (ss @ concat (map (movie_entry baseUrl currentDate) ms2) @ ''</urlset>'')"
    by (simp add: sitemap_document_def sitemap_entries_def ms e)
  then show ?thesis by (simp only: sublist_appendI)
qed

lemma document_structure_sample:
  "fetchSitemapData sampleApi =
     Some (([movieA, movieB], Some [categoryA]),
           [MoviesRequest 1 500, MoviesRequest 2 500, CategoriesRequest])
   \<and> GET sampleApi None ''2026-11-03T06:11:00.000Z'' =
       Some (Inr (xml_response
         (sitemap_document ''https://filmyfly.work'' ''2026-11-03'' [categoryA] [movieA, movieB])))
   \<and> tag_free_inputs ''https://filmyfly.work'' ''2026-11-03'' [categoryA] [movieA, movieB]
   \<and> occurrences ''<url>''
         (sitemap_document ''https://filmyfly.work'' ''2026-11-03'' [categoryA] [movieA, movieB]) = 10
   \<and> occurrences ''<image:image>''
         (sitemap_document ''https://filmyfly.work'' ''2026-11-03'' [categoryA] [movieA, movieB]) = 1
   \<and> tag_free ''https://filmyfly.work'' \<and> tag_free ''2026-11-03'' \<and> tag_free (movie_slug movieA)
   \<and> has_thumbnail movieA
   \<and> 0 < occurrences ''<image:image>'' (movie_entry ''https://filmyfly.work'' ''2026-11-03'' movieA)"
proof -
  let ?b = "''https://filmyfly.work''" and ?d = "''2026-11-03''"
  note t = document_structure
    [of sampleApi "[movieA, movieB]" "[categoryA]"
        "[MoviesRequest 1 500, MoviesRequest 2 500, CategoriesRequest]"
        None "''2026-11-03T06:11:00.000Z''" ?b ?d categoryA movieA]
  have tf: "tag_free ?b" "tag_free ?d" "tag_free (movie_slug movieA)"
    by (simp_all add: tag_free_def movieA_def)
  have inputs: "tag_free_inputs ?b ?d [categoryA] [movieA, movieB]"
    by (simp add: tag_free_inputs_def tag_free_def movieA_def movieB_def categoryA_def)
  have thumbs: "has_thumbnail movieA" "length (filter has_thumbnail [movieA, movieB]) = 1"
    by (simp_all add: has_thumbnail_def movieA_def movieB_def)
  note t1 = t [THEN conjunct1, rule_format]
  note t10 = t [THEN conjunct2, THEN conjunct2, THEN conjunct2, THEN conjunct2, THEN conjunct2, THEN conjunct2, THEN conjunct2, THEN conjunct2, THEN conjunct2, THEN conjunct1, rule_format]
  note t11 = t [THEN conjunct2, THEN conjunct2, THEN conjunct2, THEN conjunct2, THEN conjunct2, THEN conjunct2, THEN conjunct2, THEN conjunct2, THEN conjunct2, THEN conjunct2, rule_format]
  have get: "GET sampleApi None ''2026-11-03T06:11:00.000Z'' =
       Some (Inr (xml_response (sitemap_document ?b ?d [categoryA] [movieA, movieB])))"
    using t1 [OF sampleApi_data] by (simp only: base_default date_sample)
  have urls: "occurrences ''<url>'' (sitemap_document ?b ?d [categoryA] [movieA, movieB]) = 10"
    and images: "occurrences ''<image:image>'' (sitemap_document ?b ?d [categoryA] [movieA, movieB]) = 1"
    using t10 [OF inputs] thumbs(2) by simp_all
  have img: "0 < occurrences ''<image:image>'' (movie_entry ?b ?d movieA)"
    using t11 tf thumbs(1) by (simp only: simp_thms)
  from sampleApi_data get inputs urls images tf thumbs(1) img show ?thesis
    by (simp only: simp_thms)
qed


section \<open>Failures of the two fetches\<close>









text \<open>
  Outside the amended claim: a category envelope with \<^verbatim>\<open>success\<close> true and no
  \<^verbatim>\<open>data\<close> makes \<^verbatim>\<open>categories\<close> undefined, and the \<^verbatim>\<open>TypeError\<close> of
  \<^verbatim>\<open>categories.forEach\<close>, thrown outside the \<^verbatim>\<open>try\<close> block, reaches the caller of
  \<open>GET\<close>.
\<close>

lemma GET_throws_without_category_data:
  "GET noCategoryDataApi None ''2026-11-03T06:11:00.000Z'' =
     Some (Inl (Error ''Cannot read properties of undefined (reading 'forEach')''))"
proof -
  have "fetchAllMovies (listMovies noCategoryDataApi) [] 1 [] =
      Some (Inr [movieA, movieB], [MoviesRequest 1 500, MoviesRequest 2 500])"
    using twoPages_run by (simp add: noCategoryDataApi_def)
  from fetchSitemapData_categories [OF this, of
      "\<lparr>success = True, data = None, error = None, pagination = None\<rparr>"]
  have "fetchSitemapData noCategoryDataApi =
      Some (([movieA, movieB], None), [MoviesRequest 1 500, MoviesRequest 2 500, CategoriesRequest])"
    by (simp add: noCategoryDataApi_def)
  then show ?thesis by (rule GET_throws)
qed

section \<open>Escaping in the document\<close>

lemma ampersands_escaped_suffix:
  "ampersands_escaped (xs @ ys) \<Longrightarrow> ampersands_escaped ys"
  by (induction xs) (simp_all split: if_splits)

lemma sublist_ampersands:
  assumes "sublist pat doc" and "ampersands_escaped doc"
  shows "\<exists>ss. ampersands_escaped (pat @ ss)"
proof -
  from assms(1) obtain ps ss where "doc = ps @ pat @ ss" by (auto simp: sublist_def)
  with assms(2) have "ampersands_escaped (pat @ ss)"
    using ampersands_escaped_suffix [of ps "pat @ ss"] by simp
  then show ?thesis ..
qed

lemma raw_ampersand: "\<not> ampersands_escaped (''<loc>https://filmyfly.work/fast&furious</loc>'' @ ss)"
  by (simp add: begins_reference_def name_char_def)

lemma ampersands_escapeChar:
  "ampersands_escaped rest \<Longrightarrow> ampersands_escaped (escapeChar c @ rest)"
  by (simp add: begins_reference_def name_char_def)

lemma ampersands_escapeXml: "ampersands_escaped (escapeXml str)"
proof (induction str)
  case Nil
  show ?case by simp
next
  case (Cons c cs)
  then show ?case
    by (simp only: escapeXml_Cons ampersands_escapeChar)
qed

text \<open>
  The image title of a movie with a thumbnail is the escaped title: none of the
  characters \<^verbatim>\<open>< > " '\<close> is left in it, and each of its ampersands begins an entity.
\<close>

lemma image_title_escaped:
  assumes "has_thumbnail m"
  shows "sublist (''<image:title>'' @ escapeXml (movie_title m) @ ''</image:title>'')
           (movie_entry baseUrl currentDate m)
         \<and> set (escapeXml (movie_title m)) \<inter> {CHR ''<'', CHR ''>'', CHR 0x22, CHR 0x27} = {}
         \<and> ampersands_escaped (escapeXml (movie_title m))"
proof -
  have "movie_entry baseUrl currentDate m =
      (movie_open baseUrl currentDate m @ ''\<newline>'' @ ''    <image:image>\<newline>'' @
       ''      <image:loc>'' @ escapeXml (the (movie_thumbnail m)) @ ''</image:loc>\<newline>'' @
       ''      '')
      @ (''<image:title>'' @ escapeXml (movie_title m) @ ''</image:title>'')
      @ (''\<newline>'' @ ''    </image:image>'' @ movie_close)"
    using assms by (simp add: movie_entry_cases image_block_def)
  then have "sublist (''<image:title>'' @ escapeXml (movie_title m) @ ''</image:title>'')
      (movie_entry baseUrl currentDate m)"
    by (simp only: sublist_appendI)
  with escapeXml_no_markup [of "movie_title m"] ampersands_escapeXml [of "movie_title m"]
  show ?thesis by (simp only: simp_thms)
qed

text \<open>
  Claim C4 at a movie whose slug is \<^verbatim>\<open>fast&furious\<close>: the slug enters the
  \<^verbatim>\<open><loc>\<close> element of the returned document as it is, with a raw ampersand that
  begins no reference, so the document is not well-formed XML.
\<close>

theorem slug_enters_document_unescaped:
  "GET ampersandApi None ''2026-11-03T06:11:00.000Z'' =
     Some (Inr (xml_response
       (sitemap_document ''https://filmyfly.work'' ''2026-11-03'' [] [ampersandMovie])))
   \<and> sublist ''<loc>https://filmyfly.work/fast&furious</loc>''
        (sitemap_document ''https://filmyfly.work'' ''2026-11-03'' [] [ampersandMovie])
   \<and> \<not> ampersands_escaped
          (sitemap_document ''https://filmyfly.work'' ''2026-11-03'' [] [ampersandMovie])"
proof (intro conjI)
  show "GET ampersandApi None ''2026-11-03T06:11:00.000Z'' =
     Some (Inr (xml_response
       (sitemap_document ''https://filmyfly.work'' ''2026-11-03'' [] [ampersandMovie])))"
    using GET_document [OF ampersandApi_data, of None "''2026-11-03T06:11:00.000Z''"]
    by (simp only: base_default date_sample)
  have "sublist (''<loc>'' @ ''https://filmyfly.work'' @ ''/'' @ movie_slug ampersandMovie @ ''</loc>'')
      (movie_entry ''https://filmyfly.work'' ''2026-11-03'' ampersandMovie)"
    by (rule loc_in_movie)
  then have "sublist ''<loc>https://filmyfly.work/fast&furious</loc>''
      (movie_entry ''https://filmyfly.work'' ''2026-11-03'' ampersandMovie)"
    by (simp add: ampersandMovie_def)
  then show sub: "sublist ''<loc>https://filmyfly.work/fast&furious</loc>''
        (sitemap_document ''https://filmyfly.work'' ''2026-11-03'' [] [ampersandMovie])"
    by (intro sublist_in_document [of ampersandMovie]) simp_all
  show "\<not> ampersands_escaped
          (sitemap_document ''https://filmyfly.work'' ''2026-11-03'' [] [ampersandMovie])"
    using sublist_ampersands [OF sub] raw_ampersand by blast
qed

section \<open>Markup in a slug\<close>

lemma loc_in_static:
  "sublist (''<loc>'' @ baseUrl @ path p @ ''</loc>'') (static_entry baseUrl currentDate p)"
proof -
  have "static_entry baseUrl currentDate p =
      ''  <url>\<newline>    '' @ (''<loc>'' @ baseUrl @ path p @ ''</loc>'') @
      (''\<newline>    <lastmod>'' @ currentDate @ ''</lastmod>\<newline>'' @
       ''    <changefreq>'' @ changefreq p @ ''</changefreq>\<newline>'' @
       ''    <priority>'' @ priority p @ ''</priority>\<newline>'' @
       ''  </url>\<newline>'')"
    by (simp add: static_entry_def)
  then show ?thesis by (simp only: sublist_appendI)
qed

lemma injectionApi_data:
  "fetchSitemapData injectionApi =
     Some (([injectedMovie], Some []), [MoviesRequest 1 500, CategoriesRequest])"
proof -
  let ?r = "\<lparr>success = True, data = Some [injectedMovie], error = None, pagination = None\<rparr>"
  have "fetchAllMovies (listMovies injectionApi) [] 1 [] =
      Some (Inr ([] @ page_data ?r), [] @ [MoviesRequest 1 500])"
    by (rule loop_stop) (simp_all add: injectionApi_def more_pages_def)
  then have "fetchAllMovies (listMovies injectionApi) [] 1 [] =
      Some (Inr [injectedMovie], [MoviesRequest 1 500])"
    by (simp add: page_data_def page_ok_def)
  from fetchSitemapData_categories [OF this, of failedEnvelope] show ?thesis
    by (simp add: injectionApi_def failedEnvelope_def)
qed

lemma injectedDocument_built:
  "sitemap_document ''https://filmyfly.work'' ''2026-11-03'' [] [injectedMovie] = injectedDocument"
  by (simp add: sitemap_document_def sitemap_entries_def xml_header_def root_entry_def
      staticPages_def static_entry_def movie_entry_cases movie_open_def movie_close_def
      has_thumbnail_def injectedMovie_def injectedDocument_def)

lemma close_in_root:
  "tag_free baseUrl \<Longrightarrow> tag_free currentDate \<Longrightarrow>
   occurrences ''</url>'' (root_entry baseUrl currentDate @ t) = 1 + occurrences ''</url>'' t"
  by (simp add: root_entry_def occurrences_tag_free)

lemma close_in_static:
  "tag_free baseUrl \<Longrightarrow> tag_free currentDate \<Longrightarrow> tag_free (path p) \<Longrightarrow>
   tag_free (changefreq p) \<Longrightarrow> tag_free (priority p) \<Longrightarrow>
   occurrences ''</url>'' (static_entry baseUrl currentDate p @ t) = 1 + occurrences ''</url>'' t"
  by (simp add: static_entry_def occurrences_tag_free)

lemma fixed_part_counts:
  assumes b: "tag_free baseUrl" and d: "tag_free currentDate"
  shows "occurrences ''<url>'' (sitemap_document baseUrl currentDate [] ms) =
           7 + occurrences ''<url>'' (concat (map (movie_entry baseUrl currentDate) ms) @ ''</urlset>'')"
    and "occurrences ''</url>'' (sitemap_document baseUrl currentDate [] ms) =
           7 + occurrences ''</url>'' (concat (map (movie_entry baseUrl currentDate) ms) @ ''</urlset>'')"
    and "occurrences ''<image:image>'' (sitemap_document baseUrl currentDate [] ms) =
           occurrences ''<image:image>''
             (concat (map (movie_entry baseUrl currentDate) ms) @ ''</urlset>'')"
proof -
  have s1: "occurrences ''<url>'' (concat (map (static_entry baseUrl currentDate) staticPages) @ t)
      = 6 + occurrences ''<url>'' t" for t
    using occurrences_concat_map [of staticPages "''<url>''" "static_entry baseUrl currentDate" "\<lambda>_. 1" t]
      url_in_static [OF b d] staticPages_tag_free by (simp add: sum_list_const length_staticPages)
  have s2: "occurrences ''</url>'' (concat (map (static_entry baseUrl currentDate) staticPages) @ t)
      = 6 + occurrences ''</url>'' t" for t
    using occurrences_concat_map [of staticPages "''</url>''" "static_entry baseUrl currentDate" "\<lambda>_. 1" t]
      close_in_static [OF b d] staticPages_tag_free by (simp add: sum_list_const length_staticPages)
  have s3: "occurrences ''<image:image>'' (concat (map (static_entry baseUrl currentDate) staticPages) @ t)
      = occurrences ''<image:image>'' t" for t
    using occurrences_concat_map [of staticPages "''<image:image>''" "static_entry baseUrl currentDate" "\<lambda>_. 0" t]
      image_in_static [OF b d] staticPages_tag_free by simp
  have h1: "occurrences ''<url>'' (xml_header @ t) = occurrences ''<url>'' t"
    and h2: "occurrences ''</url>'' (xml_header @ t) = occurrences ''</url>'' t"
    and h3: "occurrences ''<image:image>'' (xml_header @ t) = occurrences ''<image:image>'' t" for t
    by (simp_all add: xml_header_def)
  show "occurrences ''<url>'' (sitemap_document baseUrl currentDate [] ms) =
           7 + occurrences ''<url>'' (concat (map (movie_entry baseUrl currentDate) ms) @ ''</urlset>'')"
    by (simp add: sitemap_document_def sitemap_entries_def h1 url_in_root [OF b d] s1)
  show "occurrences ''</url>'' (sitemap_document baseUrl currentDate [] ms) =
           7 + occurrences ''</url>'' (concat (map (movie_entry baseUrl currentDate) ms) @ ''</urlset>'')"
    by (simp add: sitemap_document_def sitemap_entries_def h2 close_in_root [OF b d] s2)
  show "occurrences ''<image:image>'' (sitemap_document baseUrl currentDate [] ms) =
           occurrences ''<image:image>''
             (concat (map (movie_entry baseUrl currentDate) ms) @ ''</urlset>'')"
    by (simp add: sitemap_document_def sitemap_entries_def h3 image_in_root [OF b d] s3)
qed

lemma injected_entry:
  "movie_entry ''https://filmyfly.work'' ''2026-11-03'' injectedMovie =
     ''  <url>\<newline>'' @
     ''    <loc>https://filmyfly.work/a</loc><image:image><image:loc>https://evil.example/i.jpg''
       @ ''</image:loc></image:image></url><url><loc>https://evil.example/b</loc>\<newline>'' @
     ''    <lastmod>2026-11-03</lastmod>\<newline>'' @
     ''    <changefreq>weekly</changefreq>\<newline>'' @
     ''    <priority>0.8</priority>\<newline>'' @
     ''  </url>\<newline>''"
  by (simp add: movie_entry_cases movie_open_def movie_close_def has_thumbnail_def injectedMovie_def)

lemma injected_counts:
  "occurrences ''<url>'' injectedDocument = 9"
  "occurrences ''</url>'' injectedDocument = 9"
  "occurrences ''<image:image>'' injectedDocument = 1"
proof -
  have b: "tag_free ''https://filmyfly.work''" and d: "tag_free ''2026-11-03''"
    by (simp_all add: tag_free_def)
  note c = fixed_part_counts [OF b d, of "[injectedMovie]"]
  show "occurrences ''<url>'' injectedDocument = 9"
    unfolding injectedDocument_built [symmetric] c(1) by (simp add: injected_entry)
  show "occurrences ''</url>'' injectedDocument = 9"
    unfolding injectedDocument_built [symmetric] c(2) by (simp add: injected_entry)
  show "occurrences ''<image:image>'' injectedDocument = 1"
    unfolding injectedDocument_built [symmetric] c(3) by (simp add: injected_entry)
qed

lemma injected_second_element:
  "sublist (''<url><loc>https://evil.example/b</loc>\<newline>'' @
            ''    <lastmod>2026-11-03</lastmod>\<newline>'' @
            ''    <changefreq>weekly</changefreq>\<newline>'' @
            ''    <priority>0.8</priority>\<newline>'' @
            ''  </url>\<newline>'') injectedDocument"
proof -
  have "movie_entry ''https://filmyfly.work'' ''2026-11-03'' injectedMovie =
      (''  <url>\<newline>'' @
       ''    <loc>https://filmyfly.work/a</loc><image:image><image:loc>https://evil.example/i.jpg''
         @ ''</image:loc></image:image></url>'')
      @ (''<url><loc>https://evil.example/b</loc>\<newline>'' @
         ''    <lastmod>2026-11-03</lastmod>\<newline>'' @
         ''    <changefreq>weekly</changefreq>\<newline>'' @
         ''    <priority>0.8</priority>\<newline>'' @
         ''  </url>\<newline>'')
      @ []"
    by (simp add: injected_entry)
  then have "sublist (''<url><loc>https://evil.example/b</loc>\<newline>'' @
            ''    <lastmod>2026-11-03</lastmod>\<newline>'' @
            ''    <changefreq>weekly</changefreq>\<newline>'' @
            ''    <priority>0.8</priority>\<newline>'' @
            ''  </url>\<newline>'')
      (movie_entry ''https://filmyfly.work'' ''2026-11-03'' injectedMovie)"
    by (simp only: sublist_appendI)
  then have "sublist (''<url><loc>https://evil.example/b</loc>\<newline>'' @
            ''    <lastmod>2026-11-03</lastmod>\<newline>'' @
            ''    <changefreq>weekly</changefreq>\<newline>'' @
            ''    <priority>0.8</priority>\<newline>'' @
            ''  </url>\<newline>'')
      (sitemap_document ''https://filmyfly.work'' ''2026-11-03'' [] [injectedMovie])"
    by (intro sublist_in_document [of injectedMovie]) simp_all
  then show ?thesis by (simp only: injectedDocument_built)
qed

text \<open>
  Claim C5 at one movie without a thumbnail whose slug holds markup, and no category:
  there are eight entries to list (the root, the six static pages, the movie) and no
  image block to emit. The slug enters \<^verbatim>\<open><loc>\<close> as it is, so the returned document
  has nine \<^verbatim>\<open><url>\<close> elements, the ninth a complete entry for a location that is no
  movie of the list, and an image block although the movie has no thumbnail.
\<close>

theorem injected_slug_adds_entry_and_image:
  "GET injectionApi None ''2026-11-03T06:11:00.000Z'' = Some (Inr (xml_response injectedDocument))
   \<and> fetchSitemapData injectionApi =
       Some (([injectedMovie], Some []), [MoviesRequest 1 500, CategoriesRequest])
   \<and> occurrences ''<url>'' injectedDocument = 9
   \<and> occurrences ''</url>'' injectedDocument = 9
   \<and> movie_thumbnail injectedMovie = None
   \<and> occurrences ''<image:image>'' injectedDocument = 1
   \<and> sublist (''<url><loc>https://evil.example/b</loc>\<newline>'' @
               ''    <lastmod>2026-11-03</lastmod>\<newline>'' @
               ''    <changefreq>weekly</changefreq>\<newline>'' @
               ''    <priority>0.8</priority>\<newline>'' @
               ''  </url>\<newline>'') injectedDocument"
proof (intro conjI)
  show "GET injectionApi None ''2026-11-03T06:11:00.000Z'' = Some (Inr (xml_response injectedDocument))"
    using GET_document [OF injectionApi_data, of None "''2026-11-03T06:11:00.000Z''"]
    by (simp only: base_default date_sample injectedDocument_built)
  show "fetchSitemapData injectionApi =
       Some (([injectedMovie], Some []), [MoviesRequest 1 500, CategoriesRequest])"
    by (rule injectionApi_data)
  show "occurrences ''<url>'' injectedDocument = 9"
    by (rule injected_counts)
  show "occurrences ''</url>'' injectedDocument = 9"
    by (rule injected_counts)
  show "movie_thumbnail injectedMovie = None"
    by (simp add: injectedMovie_def)
  show "occurrences ''<image:image>'' injectedDocument = 1"
    by (rule injected_counts)
  show "sublist (''<url><loc>https://evil.example/b</loc>\<newline>'' @
               ''    <lastmod>2026-11-03</lastmod>\<newline>'' @
               ''    <changefreq>weekly</changefreq>\<newline>'' @
               ''    <priority>0.8</priority>\<newline>'' @
               ''  </url>\<newline>'') injectedDocument"
    by (rule injected_second_element)
qed

end
